theory Spec2Isabelle
  imports Complex_Main "HOL-Library.Multiset"
begin

section \<open>JavaScript values and built-ins used by the server\<close>

text \<open>
  JavaScript numbers are modelled exactly: a money amount is a \<open>rat\<close>, an integer that
  comes out of \<open>parseInt\<close> is an \<open>int\<close>, and \<open>NaN\<close> is \<open>None\<close>. Floating-point
  rounding is not modelled. Characters are the 8-bit \<open>char\<close> of HOL, so strings are
  ASCII strings.

  A \<open>Date\<close> is its time value: the milliseconds since the epoch, or \<open>None\<close> for an
  Invalid Date (time value \<open>NaN\<close>). Local time is UTC plus a fixed offset \<open>tz\<close> in
  milliseconds (no daylight-saving transitions).
\<close>

type_synonym jsdate = "int option"

definition msPerDay :: int where
  "msPerDay = 86400000"

definition localDay :: "int \<Rightarrow> int \<Rightarrow> int" where
  \<comment> \<open>The number of the local calendar day (days since 1970-01-01) a time value falls on.\<close>
  "localDay tz t = (t + tz) div msPerDay"

definition setHours0 :: "int \<Rightarrow> int \<Rightarrow> int" where
  \<comment> \<open>\<open>d.setHours(0, 0, 0, 0)\<close>: the local midnight that starts the day of \<open>t\<close>.\<close>
  "setHours0 tz t = t - (t + tz) mod msPerDay"

definition subtractDays :: "int \<Rightarrow> int \<Rightarrow> int" where
  \<comment> \<open>\<open>d.setDate(d.getDate() - k)\<close> on a date: the same local time of day, \<open>k\<close> days earlier.\<close>
  "subtractDays t k = t - k * msPerDay"

definition civil_from_days :: "int \<Rightarrow> int \<times> int \<times> int" where
  \<comment> \<open>Day number to (year, month 1..12, day 1..31) in the proleptic Gregorian calendar.\<close>
  "civil_from_days z0 =
     (let z = z0 + 719468;
          era = z div 146097;
          doe = z - era * 146097;
          yoe = (doe - doe div 1460 + doe div 36524 - doe div 146096) div 365;
          y = yoe + era * 400;
          doy = doe - (365 * yoe + yoe div 4 - yoe div 100);
          mp = (5 * doy + 2) div 153;
          d = doy - (153 * mp + 2) div 5 + 1;
          m = (if mp < 10 then mp + 3 else mp - 9)
      in (if m \<le> 2 then y + 1 else y, m, d))"

definition days_from_civil :: "int \<Rightarrow> int \<Rightarrow> int \<Rightarrow> int" where
  \<comment> \<open>(year, month 1..12, day) to the day number; the inverse of \<open>civil_from_days\<close>.\<close>
  "days_from_civil y0 m d =
     (let y = (if m \<le> 2 then y0 - 1 else y0);
          era = y div 400;
          yoe = y - era * 400;
          mp = (m + 9) mod 12;
          doy = (153 * mp + 2) div 5 + d - 1;
          doe = yoe * 365 + yoe div 4 - yoe div 100 + doy
      in era * 146097 + doe - 719468)"

definition getFullYear :: "int \<Rightarrow> int \<Rightarrow> int" where
  "getFullYear tz t = fst (civil_from_days (localDay tz t))"

definition getMonth :: "int \<Rightarrow> int \<Rightarrow> int" where
  \<comment> \<open>0-based, as in JavaScript.\<close>
  "getMonth tz t = fst (snd (civil_from_days (localDay tz t))) - 1"

definition getDate :: "int \<Rightarrow> int \<Rightarrow> int" where
  "getDate tz t = snd (snd (civil_from_days (localDay tz t)))"

definition newDateYMD :: "int \<Rightarrow> int \<Rightarrow> int \<Rightarrow> int \<Rightarrow> int" where
  \<comment> \<open>\<open>new Date(year, monthIndex, day)\<close>: local midnight; a month index outside 0..11 and a
      day outside the month carry over, as \<open>MakeDay\<close> does.\<close>
  "newDateYMD tz y m0 d =
     (days_from_civil (y + m0 div 12) (m0 mod 12 + 1) 1 + (d - 1)) * msPerDay - tz"

definition digitVal :: "nat \<Rightarrow> char \<Rightarrow> nat option" where
  \<comment> \<open>The value of a digit in radix 10 or 16.\<close>
  "digitVal radix c =
     (let n = (of_char c :: nat) in
      if 48 \<le> n \<and> n \<le> 57 then Some (n - 48)
      else if radix = 16 \<and> 97 \<le> n \<and> n \<le> 102 then Some (n - 87)
      else if radix = 16 \<and> 65 \<le> n \<and> n \<le> 70 then Some (n - 55)
      else None)"

definition isDigit :: "nat \<Rightarrow> char \<Rightarrow> bool" where
  "isDigit radix c = (case digitVal radix c of None \<Rightarrow> False | Some _ \<Rightarrow> True)"

definition digitsValue :: "nat \<Rightarrow> string \<Rightarrow> nat" where
  "digitsValue radix ds =
     foldl (\<lambda>acc c. acc * radix + (case digitVal radix c of None \<Rightarrow> 0 | Some v \<Rightarrow> v)) 0 ds"

definition isWhiteSpace :: "char \<Rightarrow> bool" where
  "isWhiteSpace c = (let n = (of_char c :: nat) in n = 32 \<or> (9 \<le> n \<and> n \<le> 13))"

fun startsWith :: "'a list \<Rightarrow> 'a list \<Rightarrow> bool" where
  "startsWith xs [] = True"
| "startsWith [] (y # ys) = False"
| "startsWith (x # xs) (y # ys) = (x = y \<and> startsWith xs ys)"

definition parseInt :: "string \<Rightarrow> int option" where
  \<comment> \<open>\<open>parseInt(s)\<close> with no radix: leading white space, a sign, a \<open>0x\<close> prefix, then the
      longest run of digits; \<open>None\<close> (NaN) when there is no digit.\<close>
  "parseInt s =
     (let s0 = dropWhile isWhiteSpace s;
          neg = startsWith s0 ''-'';
          s1 = (if startsWith s0 ''-'' \<or> startsWith s0 ''+'' then drop 1 s0 else s0);
          hex = (startsWith s1 ''0x'' \<or> startsWith s1 ''0X'');
          radix = (if hex then 16 else 10);
          s2 = (if hex then drop 2 s1 else s1);
          z = takeWhile (isDigit radix) s2
      in if z = [] then None
         else Some ((if neg then - 1 else 1) * int (digitsValue radix z)))"

definition toLowerCase :: "string \<Rightarrow> string" where
  "toLowerCase s =
     map (\<lambda>c. let n = (of_char c :: nat) in if 65 \<le> n \<and> n \<le> 90 then char_of (n + 32) else c) s"

fun includes_str :: "'a list \<Rightarrow> 'a list \<Rightarrow> bool" where
  \<comment> \<open>\<open>s.includes(sub)\<close>: \<open>sub\<close> occurs in \<open>s\<close> as a contiguous run.\<close>
  "includes_str [] sub = (sub = [])"
| "includes_str (x # xs) sub = (startsWith (x # xs) sub \<or> includes_str xs sub)"

fun split :: "char \<Rightarrow> string \<Rightarrow> string list" where
  \<comment> \<open>\<open>s.split(sep)\<close> for a one-character separator.\<close>
  "split sep [] = [[]]"
| "split sep (c # cs) =
     (if c = sep then [] # split sep cs
      else (case split sep cs of [] \<Rightarrow> [[c]] | p # ps \<Rightarrow> (c # p) # ps))"

definition slice :: "'a list \<Rightarrow> int \<Rightarrow> int \<Rightarrow> 'a list" where
  \<comment> \<open>\<open>xs.slice(start, end)\<close>: a negative index counts from the end, both are clamped to
      the array, and the result is empty when \<open>end\<close> does not lie after \<open>start\<close>.\<close>
  "slice xs start end' =
     (let len = int (length xs);
          k = (if start < 0 then max (len + start) 0 else min start len);
          final = (if end' < 0 then max (len + end') 0 else min end' len)
      in take (nat (final - k)) (drop (nat k) xs))"

fun insertBy :: "('a \<Rightarrow> 'a \<Rightarrow> rat) \<Rightarrow> 'a \<Rightarrow> 'a list \<Rightarrow> 'a list" where
  "insertBy cmp x [] = [x]"
| "insertBy cmp x (y # ys) = (if cmp x y \<le> 0 then x # y # ys else y # insertBy cmp x ys)"

definition sortBy :: "('a \<Rightarrow> 'a \<Rightarrow> rat) \<Rightarrow> 'a list \<Rightarrow> 'a list" where
  \<comment> \<open>\<open>xs.sort(cmp)\<close>: a stable sort; elements that compare equal keep their order. For a
      consistent comparator every stable sort gives this result. Where the comparator is
      not consistent (a \<open>NaN\<close> from an Invalid Date, read as 0) the order is left to the
      engine, and the engine's may differ from this one.\<close>
  "sortBy cmp xs = foldr (insertBy cmp) xs []"

definition reduceSum :: "('a \<Rightarrow> rat) \<Rightarrow> 'a list \<Rightarrow> rat" where
  \<comment> \<open>\<open>xs.reduce((sum, x) => sum + f(x), 0)\<close>\<close>
  "reduceSum f xs = foldl (\<lambda>sum x. sum + f x) 0 xs"

definition toFixed2 :: "rat \<Rightarrow> rat" where
  \<comment> \<open>\<open>parseFloat(x.toFixed(2))\<close> of the exact value: the nearest multiple of 0.01, a tie
      going to the larger magnitude. The engine rounds the double nearest to \<open>x\<close>, which can
      lie on the other side of a tie.\<close>
  "toFixed2 x =
     (if x < 0 then - (of_int \<lfloor>(- x) * 100 + 1 / 2\<rfloor> / 100) else of_int \<lfloor>x * 100 + 1 / 2\<rfloor> / 100)"

definition ceilDiv :: "int \<Rightarrow> int option \<Rightarrow> int option" where
  \<comment> \<open>\<open>Math.ceil(total / limit)\<close> as \<open>res.json\<close> sends it: \<open>NaN\<close> and \<open>Infinity\<close> (a
      \<open>NaN\<close> or zero limit) are serialised as \<open>null\<close>, here \<open>None\<close>.\<close>
  "ceilDiv totalCount limit =
     (case limit of
        None \<Rightarrow> None
      | Some l \<Rightarrow> if l = 0 then None else Some \<lceil>(of_int totalCount :: rat) / of_int l\<rceil>)"

section \<open>Data model (shared/schema.ts)\<close>

record Transaction =
  id_tx :: int
  price :: rat
  items :: string
  dateTime :: jsdate
  dateOnly :: jsdate
  category :: string
  userId :: int

definition categories :: "string list" where
  "categories =
     [''Food'', ''Petrol'', ''Rent'', ''Healthcare'', ''Entertainment'', ''Clothing'',
      ''Insurance'', ''Communication'', ''Loans'', ''Toll'', ''Transportation'',
      ''Miscellaneous'']"

section \<open>MemStorage (server/storage.ts)\<close>

text \<open>
  \<open>MemStorage.transactions\<close> is a \<open>Map<number, Transaction>\<close>: an association list in
  insertion order. \<open>Map.set\<close> on a key that is present replaces the value in place; a
  new key goes to the end.
\<close>

type_synonym MemStorage = "(int \<times> Transaction) list"

fun map_set :: "('k \<times> 'v) list \<Rightarrow> 'k \<Rightarrow> 'v \<Rightarrow> ('k \<times> 'v) list" where
  "map_set [] k v = [(k, v)]"
| "map_set (p # ps) k v = (if fst p = k then (k, v) # ps else p # map_set ps k v)"

definition map_values :: "('k \<times> 'v) list \<Rightarrow> 'v list" where
  "map_values m = map snd m"

record Filters =
  f_search :: "string option"
  f_category :: "string option"
  f_sortBy :: "string option"
  f_page :: "int option"
  f_limit :: "int option"

definition byUser :: "int option \<Rightarrow> Transaction list \<Rightarrow> Transaction list" where
  \<comment> \<open>\<open>if (userId) xs = xs.filter(t => t.userId === userId)\<close>\<close>
  "byUser uid xs =
     (case uid of
        None \<Rightarrow> xs
      | Some u \<Rightarrow> if u = 0 then xs else filter (\<lambda>t. userId t = u) xs)"

definition applyFilters :: "MemStorage \<Rightarrow> int option \<Rightarrow> Filters \<Rightarrow> Transaction list" where
  "applyFilters st uid f =
     (let xs0 = byUser uid (map_values st);
          xs1 = (case f_category f of
                   None \<Rightarrow> xs0
                 | Some c \<Rightarrow> if c = [] then xs0 else filter (\<lambda>t. category t = c) xs0);
          xs2 = (case f_search f of
                   None \<Rightarrow> xs1
                 | Some s \<Rightarrow>
                     if s = [] then xs1
                     else filter (\<lambda>t. includes_str (toLowerCase (items t)) (toLowerCase s)) xs1)
      in xs2)"

definition cmpPrice :: "bool \<Rightarrow> Transaction \<Rightarrow> Transaction \<Rightarrow> rat" where
  "cmpPrice isDesc a b = (if isDesc then price b - price a else price a - price b)"

definition cmpDate :: "bool \<Rightarrow> Transaction \<Rightarrow> Transaction \<Rightarrow> rat" where
  \<comment> \<open>A difference with an Invalid Date is \<open>NaN\<close>, which \<open>sort\<close> reads as 0.\<close>
  "cmpDate isDesc a b =
     (case (dateTime a, dateTime b) of
        (Some dateA, Some dateB) \<Rightarrow> of_int (if isDesc then dateB - dateA else dateA - dateB)
      | _ \<Rightarrow> 0)"

definition applySorting :: "string option \<Rightarrow> Transaction list \<Rightarrow> Transaction list" where
  "applySorting sb xs =
     (case sb of
        None \<Rightarrow> sortBy (cmpDate True) xs
      | Some s \<Rightarrow>
          if s = [] then sortBy (cmpDate True) xs
          else
            (let parts = split CHR '':'' s;
                 field = (case parts of [] \<Rightarrow> [] | fld # _ \<Rightarrow> fld);
                 isDesc = (case parts of _ # direction # _ \<Rightarrow> direction = ''desc'' | _ \<Rightarrow> False)
             in if field = ''price'' then sortBy (cmpPrice isDesc) xs
                else if field = ''date'' then sortBy (cmpDate isDesc) xs
                else xs))"

definition orDefault :: "int option \<Rightarrow> int \<Rightarrow> int" where
  \<comment> \<open>\<open>n || d\<close> for a number: \<open>undefined\<close>, \<open>NaN\<close> and 0 are falsy.\<close>
  "orDefault n d = (case n of None \<Rightarrow> d | Some v \<Rightarrow> if v = 0 then d else v)"

definition paginate :: "Filters \<Rightarrow> Transaction list \<Rightarrow> Transaction list" where
  "paginate f xs =
     (let limit = orDefault (f_limit f) 10;
          page = orDefault (f_page f) 1;
          startIndex = (page - 1) * limit
      in slice xs startIndex (startIndex + limit))"

definition getTransactions ::
    "MemStorage \<Rightarrow> int option \<Rightarrow> Filters \<Rightarrow> Transaction list \<times> nat" where
  \<comment> \<open>Returns (transactions, totalCount).\<close>
  "getTransactions st uid f =
     (let filteredTransactions = applyFilters st uid f;
          totalCount = length filteredTransactions
      in (paginate f (applySorting (f_sortBy f) filteredTransactions), totalCount))"

definition getTransaction :: "MemStorage \<Rightarrow> int \<Rightarrow> Transaction option" where
  "getTransaction st i = map_of st i"

section \<open>Routes: GET /api/transactions\<close>

record ListQuery =
  q_search :: "string option"
  q_category :: "string option"
  q_sortBy :: "string option"
  q_page :: "string option"
  q_limit :: "string option"

record ListResponse =
  r_transactions :: "Transaction list"
  r_total :: nat
  r_page :: "int option"
  r_limit :: "int option"
  r_pages :: "int option"
  r_filteredTotal :: rat

definition queryInt :: "string option \<Rightarrow> int \<Rightarrow> int option" where
  \<comment> \<open>\<open>p ? parseInt(p) : d\<close>: an absent or empty parameter gives the default.\<close>
  "queryInt p d = (case p of None \<Rightarrow> Some d | Some s \<Rightarrow> if s = [] then Some d else parseInt s)"

definition routeFilters :: "ListQuery \<Rightarrow> Filters" where
  "routeFilters q =
     \<lparr> f_search = q_search q, f_category = q_category q, f_sortBy = q_sortBy q,
       f_page = queryInt (q_page q) 1, f_limit = queryInt (q_limit q) 10 \<rparr>"

definition listTransactions :: "MemStorage \<Rightarrow> ListQuery \<Rightarrow> ListResponse" where
  "listTransactions st q =
     (let filters = routeFilters q;
          result = getTransactions st None filters;
          filteredTotal = reduceSum price (fst result)
      in \<lparr> r_transactions = fst result,
           r_total = snd result,
           r_page = f_page filters,
           r_limit = f_limit filters,
           r_pages = ceilDiv (int (snd result)) (f_limit filters),
           r_filteredTotal = toFixed2 filteredTotal \<rparr>)"

section \<open>Dates from strings\<close>

text \<open>
  \<open>new Date(s)\<close> for a string is a parameter \<open>newDate\<close> of the functions that call it,
  so that what is proved of them holds for every parser. \<open>Date_parse\<close> is the part of
  it that ECMAScript fixes and this application's client sends: the date-only form
  \<open>YYYY-MM-DD\<close> (UTC midnight), the local date-time form \<open>YYYY-MM-DDTHH:mm\<close>, and the form
  \<open>YYYY-MM-DDTHH:mm:ss.sssZ\<close> that \<open>toISOString\<close> writes, with hours from 00 to 23. It
  is used for concrete inputs only; a string outside these forms, which an engine may
  still read as a date, is an Invalid Date here.
\<close>

definition digitsN :: "string \<Rightarrow> int option" where
  "digitsN s = (if s \<noteq> [] \<and> list_all (isDigit 10) s then Some (int (digitsValue 10 s)) else None)"

definition daysInMonthOf :: "int \<Rightarrow> int \<Rightarrow> int" where
  "daysInMonthOf y m =
     days_from_civil (if m = 12 then y + 1 else y) (if m = 12 then 1 else m + 1) 1
       - days_from_civil y m 1"

definition parseYMD :: "string \<Rightarrow> int option" where
  \<comment> \<open>\<open>YYYY-MM-DD\<close> to its day number.\<close>
  "parseYMD s =
     (if length s = 10 \<and> s ! 4 = CHR ''-'' \<and> s ! 7 = CHR ''-'' then
        (case (digitsN (take 4 s), digitsN (take 2 (drop 5 s)), digitsN (drop 8 s)) of
           (Some y, Some m, Some d) \<Rightarrow>
             if 1 \<le> m \<and> m \<le> 12 \<and> 1 \<le> d \<and> d \<le> daysInMonthOf y m
             then Some (days_from_civil y m d) else None
         | _ \<Rightarrow> None)
      else None)"

definition parseHM :: "string \<Rightarrow> int option" where
  \<comment> \<open>\<open>HH:mm\<close> to milliseconds.\<close>
  "parseHM s =
     (if length s = 5 \<and> s ! 2 = CHR '':'' then
        (case (digitsN (take 2 s), digitsN (drop 3 s)) of
           (Some h, Some m) \<Rightarrow>
             if h \<le> 23 \<and> m \<le> 59 then Some (h * 3600000 + m * 60000) else None
         | _ \<Rightarrow> None)
      else None)"

definition parseSecMs :: "string \<Rightarrow> int option" where
  \<comment> \<open>\<open>:ss.sss\<close> to milliseconds.\<close>
  "parseSecMs s =
     (if length s = 7 \<and> s ! 0 = CHR '':'' \<and> s ! 3 = CHR ''.'' then
        (case (digitsN (take 2 (drop 1 s)), digitsN (drop 4 s)) of
           (Some sec, Some ms) \<Rightarrow> if sec \<le> 59 then Some (sec * 1000 + ms) else None
         | _ \<Rightarrow> None)
      else None)"

definition Date_parse :: "int \<Rightarrow> string \<Rightarrow> jsdate" where
  "Date_parse tz s =
     (if length s = 10 then map_option (\<lambda>d. d * msPerDay) (parseYMD s)
      else if length s = 16 \<and> s ! 10 = CHR ''T'' then
        (case (parseYMD (take 10 s), parseHM (drop 11 s)) of
           (Some d, Some hm) \<Rightarrow> Some (d * msPerDay + hm - tz)
         | _ \<Rightarrow> None)
      else if length s = 24 \<and> s ! 10 = CHR ''T'' \<and> s ! 23 = CHR ''Z'' then
        (case (parseYMD (take 10 s), parseHM (take 5 (drop 11 s)), parseSecMs (take 7 (drop 16 s))) of
           (Some d, Some hm, Some sm) \<Rightarrow> Some (d * msPerDay + hm + sm)
         | _ \<Rightarrow> None)
      else None)"

section \<open>Edit validation (shared/schema.ts, editTransactionSchema)\<close>

datatype json = JNull | JBool bool | JNum rat | JStr string | JArr "json list"
  | JObj "(string \<times> json) list"

datatype ZodIssueCode = invalid_type | too_small | invalid_enum_value

text \<open>An issue of a \<open>ZodError\<close>: the path of the failing field and the issue code.\<close>

type_synonym ZodIssue = "string \<times> ZodIssueCode"

record EditTransaction =
  e_id :: rat
  e_price :: rat
  e_items :: string
  e_dateTime :: string
  e_dateOnly :: string
  e_category :: string

definition asNum :: "json option \<Rightarrow> rat option" where
  "asNum v = (case v of Some (JNum n) \<Rightarrow> Some n | _ \<Rightarrow> None)"

definition asStr :: "json option \<Rightarrow> string option" where
  "asStr v = (case v of Some (JStr s) \<Rightarrow> Some s | _ \<Rightarrow> None)"

definition zNumber :: "string \<Rightarrow> json option \<Rightarrow> ZodIssue list" where
  \<comment> \<open>\<open>z.number()\<close>\<close>
  "zNumber path v = (case asNum v of None \<Rightarrow> [(path, invalid_type)] | Some n \<Rightarrow> [])"

definition zNumberPositive :: "string \<Rightarrow> json option \<Rightarrow> ZodIssue list" where
  \<comment> \<open>\<open>z.number().positive()\<close>\<close>
  "zNumberPositive path v =
     (case asNum v of
        None \<Rightarrow> [(path, invalid_type)]
      | Some n \<Rightarrow> if 0 < n then [] else [(path, too_small)])"

definition zString :: "string \<Rightarrow> json option \<Rightarrow> ZodIssue list" where
  \<comment> \<open>\<open>z.string()\<close>\<close>
  "zString path v = (case asStr v of None \<Rightarrow> [(path, invalid_type)] | Some s \<Rightarrow> [])"

definition zStringMin1 :: "string \<Rightarrow> json option \<Rightarrow> ZodIssue list" where
  \<comment> \<open>\<open>z.string().min(1)\<close>\<close>
  "zStringMin1 path v =
     (case asStr v of
        None \<Rightarrow> [(path, invalid_type)]
      | Some s \<Rightarrow> if 1 \<le> length s then [] else [(path, too_small)])"

definition zEnum :: "string list \<Rightarrow> string \<Rightarrow> json option \<Rightarrow> ZodIssue list" where
  \<comment> \<open>\<open>z.enum([...])\<close>\<close>
  "zEnum vals path v =
     (case asStr v of
        None \<Rightarrow> [(path, invalid_type)]
      | Some s \<Rightarrow> if s \<in> set vals then [] else [(path, invalid_enum_value)])"

definition editIssues :: "(string \<Rightarrow> json option) \<Rightarrow> ZodIssue list" where
  \<comment> \<open>The issues of \<open>editTransactionSchema\<close> on an object, field by field in schema order.\<close>
  "editIssues obj =
     zNumber ''id'' (obj ''id'') @
     zNumberPositive ''price'' (obj ''price'') @
     zStringMin1 ''items'' (obj ''items'') @
     zString ''dateTime'' (obj ''dateTime'') @
     zString ''dateOnly'' (obj ''dateOnly'') @
     zEnum categories ''category'' (obj ''category'')"

definition editTransactionSchema_parse ::
    "(string \<Rightarrow> json option) \<Rightarrow> ZodIssue list + EditTransaction" where
  \<comment> \<open>\<open>editTransactionSchema.parse(obj)\<close>: the parsed data, or (\<open>Inl\<close>) the \<open>ZodError\<close> thrown.\<close>
  "editTransactionSchema_parse obj =
     (case (asNum (obj ''id''), asNum (obj ''price''), asStr (obj ''items''),
            asStr (obj ''dateTime''), asStr (obj ''dateOnly''), asStr (obj ''category'')) of
        (Some i, Some p, Some its, Some dt, Some d, Some c) \<Rightarrow>
          if editIssues obj = [] then
            Inr \<lparr> e_id = i, e_price = p, e_items = its, e_dateTime = dt, e_dateOnly = d,
                  e_category = c \<rparr>
          else Inl (editIssues obj)
      | _ \<Rightarrow> Inl (editIssues obj))"

section \<open>MemStorage.updateTransaction and PUT /api/transactions/:id\<close>

datatype StorageError = TransactionNotFound int

definition updateTransaction ::
    "(string \<Rightarrow> jsdate) \<Rightarrow> MemStorage \<Rightarrow> int \<Rightarrow> EditTransaction
       \<Rightarrow> StorageError + (Transaction \<times> MemStorage)" where
  \<comment> \<open>Returns the updated transaction and the new store, or the error thrown.\<close>
  "updateTransaction newDate st i updatedData =
     (case map_of st i of
        None \<Rightarrow> Inl (TransactionNotFound i)
      | Some t \<Rightarrow>
          (let updated = t\<lparr> price := e_price updatedData,
                              items := e_items updatedData,
                              dateTime := newDate (e_dateTime updatedData),
                              dateOnly := newDate (e_dateOnly updatedData),
                              category := e_category updatedData \<rparr>
           in Inr (updated, map_set st i updated)))"

datatype PutResponse =
    Ok200 Transaction
  | InvalidId400
  | Validation400 "ZodIssue list"
  | NotFound404
  | Failed500

definition requestObject :: "int \<Rightarrow> (string \<times> json) list \<Rightarrow> string \<Rightarrow> json option" where
  \<comment> \<open>\<open>{ id, ...req.body }\<close>: a key of the body overrides \<open>id\<close>. The body is the key-value
      list of the parsed JSON object.\<close>
  "requestObject i body k =
     (case map_of body k of
        Some v \<Rightarrow> Some v
      | None \<Rightarrow> if k = ''id'' then Some (JNum (of_int i)) else None)"

definition putTransaction ::
    "(string \<Rightarrow> jsdate) \<Rightarrow> MemStorage \<Rightarrow> string \<Rightarrow> (string \<times> json) list
       \<Rightarrow> PutResponse \<times> MemStorage" where
  \<comment> \<open>The handler of \<open>PUT /api/transactions/:id\<close>: the response and the store after it.\<close>
  "putTransaction newDate st idParam body =
     (case parseInt idParam of
        None \<Rightarrow> (InvalidId400, st)
      | Some i \<Rightarrow>
          (case editTransactionSchema_parse (requestObject i body) of
             Inl issues \<Rightarrow> (Validation400 issues, st)
           | Inr data \<Rightarrow>
               (case getTransaction st i of
                  None \<Rightarrow> (NotFound404, st)
                | Some _ \<Rightarrow>
                    (case updateTransaction newDate st i data of
                       Inl _ \<Rightarrow> (Failed500, st)
                     | Inr (updatedTransaction, st') \<Rightarrow> (Ok200 updatedTransaction, st')))))"

definition calendarDateOf :: "int \<Rightarrow> int \<Rightarrow> int" where
  \<comment> \<open>\<open>new Date(date.getFullYear(), date.getMonth(), date.getDate())\<close>: how
      \<open>seedTransactions\<close> derives \<open>dateOnly\<close> from \<open>dateTime\<close>.\<close>
  "calendarDateOf tz dt = newDateYMD tz (getFullYear tz dt) (getMonth tz dt) (getDate tz dt)"

definition derivedConsistent :: "int \<Rightarrow> Transaction \<Rightarrow> bool" where
  \<comment> \<open>\<open>dateOnly\<close> is the calendar date of \<open>dateTime\<close>.\<close>
  "derivedConsistent tz t =
     (case (dateTime t, dateOnly t) of
        (Some dt, Some d) \<Rightarrow> d = calendarDateOf tz dt
      | _ \<Rightarrow> False)"

section \<open>Summaries (MemStorage.getSpendingSummary, getCategorySummary, getDailySpending)\<close>

record SpendingSummary =
  todayTotal :: rat
  todayTrend :: rat
  monthTotal :: rat
  monthTrend :: rat
  topCategory :: string
  topCategoryAmount :: rat
  topCategoryPercentage :: rat
  dailyAverage :: rat

record CategorySummary =
  cs_category :: string
  cs_total :: rat
  cs_percentage :: rat


definition dayOf :: "int \<Rightarrow> Transaction \<Rightarrow> int option" where
  \<comment> \<open>The local calendar day of a transaction's \<open>dateOnly\<close> (in SQL, \<open>DATE(date_only)\<close>).\<close>
  "dayOf tz t = map_option (localDay tz) (dateOnly t)"

definition onDate :: "int \<Rightarrow> int \<Rightarrow> Transaction \<Rightarrow> bool" where
  \<comment> \<open>\<open>const d = new Date(t.dateOnly); d.setHours(0, 0, 0, 0); return d.getTime() === date.getTime()\<close>;
      an Invalid Date equals nothing.\<close>
  "onDate tz date t = (map_option (setHours0 tz) (dateOnly t) = Some date)"

definition inMonth :: "int \<Rightarrow> int \<Rightarrow> int \<Rightarrow> Transaction \<Rightarrow> bool" where
  \<comment> \<open>\<open>date.getMonth() === m && date.getFullYear() === y\<close> for \<open>date = new Date(t.dateOnly)\<close>\<close>
  "inMonth tz m y t =
     (case dateOnly t of None \<Rightarrow> False | Some d \<Rightarrow> getMonth tz d = m \<and> getFullYear tz d = y)"

definition addToCategory :: "(string \<times> rat) list \<Rightarrow> Transaction \<Rightarrow> (string \<times> rat) list" where
  \<comment> \<open>\<open>categoryTotals.set(category, (categoryTotals.get(category) || 0) + Number(t.price))\<close>\<close>
  "addToCategory m t =
     (let existingTotal = (case map_of m (category t) of None \<Rightarrow> 0 | Some v \<Rightarrow> v)
      in map_set m (category t) (existingTotal + price t))"

definition categoryTotals :: "Transaction list \<Rightarrow> (string \<times> rat) list" where
  "categoryTotals xs = foldl addToCategory [] xs"

definition pickTop :: "(string \<times> rat) list \<Rightarrow> string \<times> rat" where
  \<comment> \<open>The \<open>forEach\<close> that keeps the first category with the strictly largest amount.\<close>
  "pickTop m =
     foldl (\<lambda>(top, topAmount) (c, amount). if amount > topAmount then (c, amount) else (top, topAmount))
       (''None'', 0) m"

definition getSpendingSummary :: "int \<Rightarrow> int \<Rightarrow> MemStorage \<Rightarrow> int option \<Rightarrow> SpendingSummary" where
  \<comment> \<open>\<open>now\<close> is the time value of \<open>new Date()\<close> at the call.\<close>
  "getSpendingSummary tz now st uid =
     (let userTransactions = byUser uid (map_values st);
          today = setHours0 tz now;
          todayTotal' = reduceSum price (filter (onDate tz today) userTransactions);
          lastWeek = map (\<lambda>i. subtractDays today (int i + 1)) [0..<7];
          dailyAmounts =
            map (\<lambda>date. let dayTransactions = filter (onDate tz date) userTransactions
                       in if length dayTransactions > 0 then reduceSum price dayTransactions else 0)
              lastWeek;
          avgDailySpending = reduceSum (\<lambda>a. a) dailyAmounts / of_nat (length lastWeek);
          todayTrend' =
            (if avgDailySpending > 0
             then ((todayTotal' - avgDailySpending) / avgDailySpending) * (- 100) else 0);
          currentMonth = getMonth tz today;
          currentYear = getFullYear tz today;
          monthTransactions = filter (inMonth tz currentMonth currentYear) userTransactions;
          monthTotal' = reduceSum price monthTransactions;
          lastMonthMonth = (if currentMonth - 1 < 0 then 11 else currentMonth - 1);
          lastMonthYear = (if currentMonth - 1 < 0 then currentYear - 1 else currentYear);
          lastMonthTotal =
            reduceSum price (filter (inMonth tz lastMonthMonth lastMonthYear) userTransactions);
          monthTrend' =
            (if lastMonthTotal > 0 then ((monthTotal' - lastMonthTotal) / lastMonthTotal) * 100 else 0);
          top = pickTop (categoryTotals monthTransactions);
          topCategoryPercentage' = (if monthTotal' > 0 then (snd top / monthTotal') * 100 else 0);
          daysInMonth = getDate tz (newDateYMD tz currentYear (currentMonth + 1) 0)
      in \<lparr> todayTotal = todayTotal',
           todayTrend = todayTrend',
           monthTotal = monthTotal',
           monthTrend = monthTrend',
           topCategory = fst top,
           topCategoryAmount = snd top,
           topCategoryPercentage = topCategoryPercentage',
           dailyAverage = monthTotal' / of_int daysInMonth \<rparr>)"

definition cmpTotalDesc :: "CategorySummary \<Rightarrow> CategorySummary \<Rightarrow> rat" where
  "cmpTotalDesc a b = cs_total b - cs_total a"

definition getCategorySummary :: "int \<Rightarrow> int \<Rightarrow> MemStorage \<Rightarrow> int option \<Rightarrow> CategorySummary list" where
  "getCategorySummary tz now st uid =
     (let userTransactions = byUser uid (map_values st);
          currentMonth = getMonth tz now;
          currentYear = getFullYear tz now;
          monthTransactions = filter (inMonth tz currentMonth currentYear) userTransactions;
          totalSpending = reduceSum price monthTransactions;
          categorySummary =
            map (\<lambda>(c, total'). \<lparr> cs_category = c, cs_total = total',
                    cs_percentage = (if totalSpending > 0 then (total' / totalSpending) * 100 else 0) \<rparr>)
              (categoryTotals monthTransactions)
      in sortBy cmpTotalDesc categorySummary)"








fun mapThrowing :: "('a \<Rightarrow> 'e + 'b) \<Rightarrow> 'a list \<Rightarrow> 'e + 'b list" where
  \<comment> \<open>\<open>xs.map(f)\<close> for an \<open>f\<close> that may throw: the first error ends the call.\<close>
  "mapThrowing f [] = Inr []"
| "mapThrowing f (x # xs) =
     (case f x of
        Inl e \<Rightarrow> Inl e
      | Inr y \<Rightarrow> (case mapThrowing f xs of Inl e \<Rightarrow> Inl e | Inr ys \<Rightarrow> Inr (y # ys)))"



section \<open>DbStorage.getSpendingSummary: the queries behind todayTrend\<close>

text \<open>
  The \<open>transactions\<close> table is the list of its rows, and a query is the function
  PostgreSQL computes from it; \<open>SUM\<close>, \<open>AVG\<close> and \<open>GROUP BY\<close> on \<open>numeric\<close> are exact.
  The bounds the queries are built with are local wall-clock strings
  (\<open>yyyy-MM-dd HH:mm:ss\<close>, the milliseconds dropped), and a \<open>timestamp\<close> column is
  compared with them as such, so both are time values of the server's zone here.

  \<open>yesterdayEnd\<close> is \<open>format(subDays(startOfToday, 1), 'yyyy-MM-dd 23:59:59')\<close> with
  \<open>startOfToday\<close> a string. Whether the installed date-fns reads a string argument as
  a date or as an Invalid Date, which \<open>format\<close> rejects with a \<open>RangeError\<close>, is the
  parameter \<open>stringDates\<close>.
\<close>

datatype DbFailure = InvalidTimeValue

definition between :: "int \<Rightarrow> int \<Rightarrow> Transaction \<Rightarrow> bool" where
  \<comment> \<open>\<open>datetime >= lo AND datetime <= hi\<close>\<close>
  "between lo hi t = (case dateTime t of None \<Rightarrow> False | Some dt \<Rightarrow> lo \<le> dt \<and> dt \<le> hi)"

definition db_todayTotal :: "int \<Rightarrow> int \<Rightarrow> Transaction list \<Rightarrow> rat" where
  \<comment> \<open>\<open>SELECT COALESCE(SUM(price), 0) ... WHERE datetime >= startOfToday AND datetime <= endOfToday\<close>\<close>
  "db_todayTotal tz now rows =
     (let startOfToday = setHours0 tz now;
          endOfToday = startOfToday + 86399000
      in sum_list (map price (filter (between startOfToday endOfToday) rows)))"

definition db_avgDaily :: "int \<Rightarrow> int \<Rightarrow> Transaction list \<Rightarrow> rat" where
  \<comment> \<open>\<open>SELECT COALESCE(AVG(daily_sum), 0) FROM (SELECT SUM(price) AS daily_sum ... WHERE
      datetime >= lastWeekStart AND datetime <= yesterdayEnd GROUP BY DATE(date_only))\<close>: one
      \<open>daily_sum\<close> for each date that has a row in the window.\<close>
  "db_avgDaily tz now rows =
     (let lastWeekStart = setHours0 tz (subtractDays now 7);
          yesterdayEnd = subtractDays (setHours0 tz now) 1 + 86399000;
          window = filter (between lastWeekStart yesterdayEnd) rows;
          days = remdups (map (dayOf tz) window);
          daily_sums = map (\<lambda>d. sum_list (map price (filter (\<lambda>t. dayOf tz t = d) window))) days
      in if daily_sums = [] then 0 else sum_list daily_sums / of_nat (length daily_sums))"

definition db_todayTrend :: "bool \<Rightarrow> int \<Rightarrow> int \<Rightarrow> Transaction list \<Rightarrow> DbFailure + rat" where
  \<comment> \<open>The \<open>todayTrend\<close> of \<open>DbStorage.getSpendingSummary()\<close>, or the error it throws.\<close>
  "db_todayTrend stringDates tz now rows =
     (if \<not> stringDates then Inl InvalidTimeValue
      else
        (let todayTotal' = db_todayTotal tz now rows;
             avgDaily = db_avgDaily tz now rows
         in Inr (if avgDaily > 0 then ((todayTotal' - avgDaily) / avgDaily) * (- 100) else 0)))"

section \<open>Notions the properties are stated with\<close>

definition matchesFilters :: "int option \<Rightarrow> Filters \<Rightarrow> Transaction \<Rightarrow> bool" where
  \<comment> \<open>A transaction satisfies every supplied filter: the user, the category (exact), the
      search text (case-insensitive substring of \<open>items\<close>).\<close>
  "matchesFilters uid f t =
     ((case uid of None \<Rightarrow> True | Some u \<Rightarrow> u = 0 \<or> userId t = u) \<and>
      (case f_category f of None \<Rightarrow> True | Some c \<Rightarrow> c = [] \<or> category t = c) \<and>
      (case f_search f of
         None \<Rightarrow> True
       | Some s \<Rightarrow> s = [] \<or> includes_str (toLowerCase (items t)) (toLowerCase s)))"

definition fieldComponent :: "string \<Rightarrow> string" where
  \<comment> \<open>The part of a \<open>sortBy\<close> string before its first \<open>:\<close>.\<close>
  "fieldComponent s = takeWhile (\<lambda>c. c \<noteq> CHR '':'') s"

definition laterOrEqual :: "Transaction \<Rightarrow> Transaction \<Rightarrow> bool" where
  \<comment> \<open>Both have a valid \<open>dateTime\<close>, and the first is not earlier than the second.\<close>
  "laterOrEqual a b = (case (dateTime a, dateTime b) of (Some x, Some y) \<Rightarrow> y \<le> x | _ \<Rightarrow> False)"

definition validDateTime :: "Transaction \<Rightarrow> bool" where
  "validDateTime t = (case dateTime t of None \<Rightarrow> False | Some _ \<Rightarrow> True)"

definition timeKey :: "Transaction \<Rightarrow> int" where
  \<comment> \<open>The key whose ascending order is \<open>dateTime\<close> descending.\<close>
  "timeKey t = (case dateTime t of None \<Rightarrow> 0 | Some v \<Rightarrow> - v)"

definition dayTotal :: "int \<Rightarrow> Transaction list \<Rightarrow> int \<Rightarrow> rat" where
  \<comment> \<open>The sum of \<open>price\<close> over the transactions dated on calendar day \<open>d\<close>.\<close>
  "dayTotal tz xs d = sum_list (map price (filter (\<lambda>t. dayOf tz t = Some d) xs))"

definition editFields :: "string list" where
  "editFields = [''id'', ''price'', ''items'', ''dateTime'', ''dateOnly'', ''category'']"

definition fieldOk :: "(string \<Rightarrow> json option) \<Rightarrow> string \<Rightarrow> bool" where
  \<comment> \<open>What the edit validation asks of each field: \<open>id\<close> a number, \<open>price\<close> a positive
      number, \<open>items\<close> a non-empty string, \<open>dateTime\<close> and \<open>dateOnly\<close> strings,
      \<open>category\<close> one of the twelve labels.\<close>
  "fieldOk obj k =
     (if k = ''id'' then (case obj k of Some (JNum n) \<Rightarrow> True | _ \<Rightarrow> False)
      else if k = ''price'' then (case obj k of Some (JNum n) \<Rightarrow> 0 < n | _ \<Rightarrow> False)
      else if k = ''items'' then (case obj k of Some (JStr s) \<Rightarrow> s \<noteq> [] | _ \<Rightarrow> False)
      else if k = ''dateTime'' \<or> k = ''dateOnly'' then
        (case obj k of Some (JStr s) \<Rightarrow> True | _ \<Rightarrow> False)
      else if k = ''category'' then
        (case obj k of Some (JStr c) \<Rightarrow> c \<in> set categories | _ \<Rightarrow> False)
      else True)"

definition applyEdit :: "(string \<Rightarrow> jsdate) \<Rightarrow> Transaction \<Rightarrow> EditTransaction \<Rightarrow> Transaction" where
  \<comment> \<open>The record an edit is to store: the old one with the five mutable fields replaced.\<close>
  "applyEdit newDate t d =
     \<lparr> id_tx = id_tx t, price = e_price d, items = e_items d, dateTime = newDate (e_dateTime d),
       dateOnly = newDate (e_dateOnly d), category = e_category d, userId = userId t \<rparr>"

definition weekAverage :: "int \<Rightarrow> Transaction list \<Rightarrow> int \<Rightarrow> rat" where
  \<comment> \<open>The average daily total over the 7 calendar days before day \<open>today\<close>.\<close>
  "weekAverage tz xs today = sum_list (map (\<lambda>k. dayTotal tz xs (today - k)) [1..7]) / 7"


definition soFar :: "(string \<times> rat) list \<Rightarrow> string \<Rightarrow> rat" where
  \<comment> \<open>\<open>categoryTotals.get(c) || 0\<close>\<close>
  "soFar m c = (case map_of m c of None \<Rightarrow> 0 | Some v \<Rightarrow> v)"



definition calendarMonth :: "int \<Rightarrow> int \<times> int" where
  \<comment> \<open>The (year, month) a calendar day lies in.\<close>
  "calendarMonth day = (case civil_from_days day of (y, m, d) \<Rightarrow> (y, m))"

definition datedInMonthOf :: "int \<Rightarrow> int \<Rightarrow> Transaction \<Rightarrow> bool" where
  \<comment> \<open>The transaction's \<open>dateOnly\<close> is a valid date in the calendar month of the moment
      \<open>now\<close>: the same month of the same year.\<close>
  "datedInMonthOf tz now t =
     (case dateOnly t of
        None \<Rightarrow> False
      | Some d \<Rightarrow> calendarMonth (localDay tz d) = calendarMonth (localDay tz now))"

section \<open>Sample data\<close>

text \<open>
  Three transactions of November 2024 in insertion order: 10.00 (Food) on the 3rd,
  20.00 (Food) and 5.00 (Rent) on the 5th. The sample clock is 2024-11-05T15:00Z and the
  sample time zone is UTC.
\<close>

definition tx1 :: Transaction where
  "tx1 = \<lparr> id_tx = 1, price = 10, items = ''Groceries'', dateTime = Some 1730628000000,
           dateOnly = Some 1730592000000, category = ''Food'', userId = 1 \<rparr>"

definition tx2 :: Transaction where
  "tx2 = \<lparr> id_tx = 2, price = 20, items = ''Coffee'', dateTime = Some 1730797200000,
           dateOnly = Some 1730764800000, category = ''Food'', userId = 1 \<rparr>"

definition tx3 :: Transaction where
  "tx3 = \<lparr> id_tx = 3, price = 5, items = ''Monthly Rent'', dateTime = Some 1730808000000,
           dateOnly = Some 1730764800000, category = ''Rent'', userId = 1 \<rparr>"

definition sampleStore :: MemStorage where
  "sampleStore = [(1, tx1), (2, tx2), (3, tx3)]"

definition sampleNow :: int where
  "sampleNow = 1730818800000"

definition sampleNowEarlier :: int where
  \<comment> \<open>2024-11-04T15:00Z, a day on which the sample store has no transaction.\<close>
  "sampleNowEarlier = 1730732400000"

definition noFilters :: Filters where
  "noFilters = \<lparr> f_search = None, f_category = None, f_sortBy = None, f_page = None, f_limit = None \<rparr>"

definition noQuery :: ListQuery where
  "noQuery = \<lparr> q_search = None, q_category = None, q_sortBy = None, q_page = None, q_limit = None \<rparr>"

definition yesterdayTx :: Transaction where
  \<comment> \<open>70.00 at noon of 2024-11-04.\<close>
  "yesterdayTx = \<lparr> id_tx = 1, price = 70, items = ''Monthly Rent'', dateTime = Some 1730721600000,
                   dateOnly = Some 1730678400000, category = ''Rent'', userId = 1 \<rparr>"

definition todayTx :: Transaction where
  \<comment> \<open>35.00 at noon of 2024-11-05.\<close>
  "todayTx = \<lparr> id_tx = 2, price = 35, items = ''Groceries'', dateTime = Some 1730808000000,
               dateOnly = Some 1730764800000, category = ''Food'', userId = 1 \<rparr>"

definition twoDayStore :: MemStorage where
  "twoDayStore = [(1, yesterdayTx), (2, todayTx)]"

definition octoberTx :: Transaction where
  \<comment> \<open>100.00 (Food) on 2024-10-31, the day before the sample month.\<close>
  "octoberTx = \<lparr> id_tx = 4, price = 100, items = ''Dinner'', dateTime = Some 1730376000000,
                 dateOnly = Some 1730332800000, category = ''Food'', userId = 1 \<rparr>"

definition lastYearTx :: Transaction where
  \<comment> \<open>200.00 (Toll) on 2023-11-05, the sample month of the year before.\<close>
  "lastYearTx = \<lparr> id_tx = 5, price = 200, items = ''Highway Toll'', dateTime = Some 1699185600000,
                  dateOnly = Some 1699142400000, category = ''Toll'', userId = 1 \<rparr>"

definition decemberTx :: Transaction where
  \<comment> \<open>50.00 (Rent) on 2024-12-01, the day after the sample month.\<close>
  "decemberTx = \<lparr> id_tx = 6, price = 50, items = ''Deposit'', dateTime = Some 1733054400000,
                  dateOnly = Some 1733011200000, category = ''Rent'', userId = 1 \<rparr>"

definition undatedTx :: Transaction where
  \<comment> \<open>300.00 (Loans) with an Invalid Date as \<open>dateOnly\<close>.\<close>
  "undatedTx = \<lparr> id_tx = 7, price = 300, items = ''Loan Payment'', dateTime = Some 1730808000000,
                 dateOnly = None, category = ''Loans'', userId = 1 \<rparr>"

definition yearStore :: MemStorage where
  \<comment> \<open>The sample store among transactions of other months.\<close>
  "yearStore = [(4, octoberTx), (1, tx1), (5, lastYearTx), (2, tx2), (6, decemberTx), (3, tx3),
                (7, undatedTx)]"

definition pageQuery :: ListQuery where
  \<comment> \<open>\<open>?page=3&limit=2\<close>\<close>
  "pageQuery = noQuery\<lparr> q_page := Some ''3'', q_limit := Some ''2'' \<rparr>"

definition limitQuery :: ListQuery where
  \<comment> \<open>\<open>?limit=2\<close>\<close>
  "limitQuery = noQuery\<lparr> q_limit := Some ''2'' \<rparr>"

definition goodBody :: "(string \<times> json) list" where
  "goodBody = [(''price'', JNum 7), (''items'', JStr ''Tea''), (''dateTime'', JStr ''2024-11-05T10:30''),
               (''dateOnly'', JStr ''2024-11-05''), (''category'', JStr ''Food'')]"

definition divergingBody :: "(string \<times> json) list" where
  \<comment> \<open>A \<open>dateOnly\<close> that is not the date of \<open>dateTime\<close>.\<close>
  "divergingBody = [(''price'', JNum 7), (''items'', JStr ''Tea''), (''dateTime'', JStr ''2024-11-05T10:30''),
                    (''dateOnly'', JStr ''2024-01-01''), (''category'', JStr ''Food'')]"

definition unparseableBody :: "(string \<times> json) list" where
  \<comment> \<open>Strings that are no dates.\<close>
  "unparseableBody = [(''price'', JNum 7), (''items'', JStr ''Tea''), (''dateTime'', JStr ''not a date''),
                      (''dateOnly'', JStr ''''), (''category'', JStr ''Food'')]"

definition invalidBody :: "(string \<times> json) list" where
  "invalidBody = [(''price'', JNum (- 5)), (''items'', JStr ''''), (''dateTime'', JStr ''2024-11-05T10:30''),
                  (''dateOnly'', JStr ''2024-11-05''), (''category'', JStr ''Food'')]"

definition goodEdit :: EditTransaction where
  \<comment> \<open>\<open>goodBody\<close> as parsed for transaction 2.\<close>
  "goodEdit = \<lparr> e_id = 2, e_price = 7, e_items = ''Tea'', e_dateTime = ''2024-11-05T10:30'',
                e_dateOnly = ''2024-11-05'', e_category = ''Food'' \<rparr>"

definition editedTx2 :: Transaction where
  "editedTx2 = \<lparr> id_tx = 2, price = 7, items = ''Tea'', dateTime = Some 1730802600000,
                 dateOnly = Some 1730764800000, category = ''Food'', userId = 1 \<rparr>"

definition divergedTx2 :: Transaction where
  "divergedTx2 = \<lparr> id_tx = 2, price = 7, items = ''Tea'', dateTime = Some 1730802600000,
                   dateOnly = Some 1704067200000, category = ''Food'', userId = 1 \<rparr>"

definition invalidDatesTx2 :: Transaction where
  "invalidDatesTx2 = \<lparr> id_tx = 2, price = 7, items = ''Tea'', dateTime = None,
                       dateOnly = None, category = ''Food'', userId = 1 \<rparr>"

definition foodSummary :: CategorySummary where
  "foodSummary = \<lparr> cs_category = ''Food'', cs_total = 30, cs_percentage = 600 / 7 \<rparr>"

definition rentSummary :: CategorySummary where
  "rentSummary = \<lparr> cs_category = ''Rent'', cs_total = 5, cs_percentage = 100 / 7 \<rparr>"

section \<open>Lists, sorting and slicing\<close>

lemma reduceSum_sum_list: "reduceSum f xs = sum_list (map f xs)"
proof -
  have "foldl (\<lambda>sum x. sum + f x) a xs = a + sum_list (map f xs)" for a
    by (induction xs arbitrary: a) (simp_all add: add.assoc)
  then show ?thesis by (simp add: reduceSum_def)
qed

lemma slice_take_drop:
  "0 \<le> a \<Longrightarrow> 0 \<le> l \<Longrightarrow> slice xs a (a + l) = take (nat l) (drop (nat a) xs)"
  by (auto simp: slice_def Let_def min_def)

lemma insertBy_insort_key:
  assumes "\<And>y. y \<in> set xs \<Longrightarrow> (cmp x y \<le> 0) = (k x \<le> k y)"
  shows "insertBy cmp x xs = insort_key k x xs"
  using assms by (induction xs) auto

lemma sortBy_sort_key:
  assumes "\<And>a b. a \<in> set xs \<Longrightarrow> b \<in> set xs \<Longrightarrow> (cmp a b \<le> 0) = (k a \<le> k b)"
  shows "sortBy cmp xs = sort_key k xs"
  using assms
proof (induction xs)
  case Nil
  then show ?case by (simp add: sortBy_def)
next
  case (Cons x xs)
  have ih: "sortBy cmp xs = sort_key k xs"
    using Cons by simp
  have "insertBy cmp x (sort_key k xs) = insort_key k x (sort_key k xs)"
    by (rule insertBy_insort_key) (simp add: Cons.prems)
  with ih show ?case by (simp add: sortBy_def)
qed

lemma mset_insertBy: "mset (insertBy cmp x xs) = add_mset x (mset xs)"
  by (induction xs) auto

lemma mset_sortBy: "mset (sortBy cmp xs) = mset xs"
  by (induction xs) (simp_all add: sortBy_def mset_insertBy)

section \<open>Listing: filters, order, pages\<close>

lemma byUser_filter:
  "byUser uid xs = filter (\<lambda>t. case uid of None \<Rightarrow> True | Some u \<Rightarrow> u = 0 \<or> userId t = u) xs"
  by (cases uid) (auto simp: byUser_def intro: filter_cong)

lemma applyFilters_matches:
  "applyFilters st uid f = filter (matchesFilters uid f) (map_values st)"
  by (cases "f_category f"; cases "f_search f")
     (auto simp: applyFilters_def byUser_filter matchesFilters_def Let_def intro!: filter_cong)

lemma split_field: "(case split CHR '':'' s of [] \<Rightarrow> [] | fld # _ \<Rightarrow> fld) = fieldComponent s"
  by (induction s) (auto simp: fieldComponent_def split: list.splits)

lemma applySorting_unrecognised:
  assumes "s \<noteq> []" "fieldComponent s \<noteq> ''price''" "fieldComponent s \<noteq> ''date''"
  shows "applySorting (Some s) xs = xs"
  using assms by (simp add: applySorting_def Let_def split_field)

lemma cmpDate_desc_key:
  assumes "validDateTime a" "validDateTime b"
  shows "(cmpDate True a b \<le> 0) = (timeKey a \<le> timeKey b)"
  using assms by (auto simp: cmpDate_def timeKey_def validDateTime_def split: option.splits)

lemma sorted_wrt_laterOrEqual:
  assumes "list_all validDateTime ys" "sorted (map timeKey ys)"
  shows "sorted_wrt laterOrEqual ys"
  using assms
  by (induction ys)
     (auto simp: laterOrEqual_def timeKey_def validDateTime_def list_all_iff split: option.splits)

lemma sortBy_date_desc:
  assumes "list_all validDateTime xs"
  shows "sorted_wrt laterOrEqual (sortBy (cmpDate True) xs)"
proof -
  have eq: "sortBy (cmpDate True) xs = sort_key timeKey xs"
    using assms by (intro sortBy_sort_key cmpDate_desc_key) (auto simp: list_all_iff)
  have "list_all validDateTime (sort_key timeKey xs)"
    using assms by (simp add: list_all_iff)
  moreover have "sorted (map timeKey (sort_key timeKey xs))"
    by simp
  ultimately show ?thesis
    unfolding eq by (rule sorted_wrt_laterOrEqual)
qed

text \<open>
  C10. A \<open>limit\<close> of 0 gives what \<open>limit = 10\<close> (and an absent limit) gives, and a \<open>page\<close>
  of 0 what \<open>page = 1\<close> (and an absent page) gives: \<open>getTransactions\<close> replaces the falsy
  zero by the default and rejects nothing. A positive \<open>limit\<close> and \<open>page\<close> are used as
  given: the result is the \<open>limit\<close> elements from offset \<open>(page - 1) * limit\<close> of the
  filtered, sorted list.
\<close>

theorem getTransactions_zero_is_default:
  "getTransactions st uid (f\<lparr>f_limit := Some 0\<rparr>) = getTransactions st uid (f\<lparr>f_limit := Some 10\<rparr>)
   \<and> getTransactions st uid (f\<lparr>f_limit := Some 0\<rparr>) = getTransactions st uid (f\<lparr>f_limit := None\<rparr>)
   \<and> getTransactions st uid (f\<lparr>f_page := Some 0\<rparr>) = getTransactions st uid (f\<lparr>f_page := Some 1\<rparr>)
   \<and> getTransactions st uid (f\<lparr>f_page := Some 0\<rparr>) = getTransactions st uid (f\<lparr>f_page := None\<rparr>)
   \<and> (0 < l \<and> 0 < p \<longrightarrow>
        fst (getTransactions st uid (f\<lparr>f_page := Some p, f_limit := Some l\<rparr>)) =
          take (nat l) (drop (nat ((p - 1) * l))
            (applySorting (f_sortBy f) (filter (matchesFilters uid f) (map_values st)))))"
proof -
  have "slice xs ((p - 1) * l) ((p - 1) * l + l) = take (nat l) (drop (nat ((p - 1) * l)) xs)"
    if "0 < l" "0 < p" for xs :: "Transaction list"
    using that by (intro slice_take_drop) simp_all
  then show ?thesis
    by (simp add: getTransactions_def paginate_def orDefault_def Let_def
          applyFilters_matches [symmetric] applyFilters_def)
qed

theorem getTransactions_zero_is_default_witness:
  "getTransactions sampleStore None (noFilters\<lparr>f_limit := Some 0\<rparr>) =
     getTransactions sampleStore None (noFilters\<lparr>f_limit := Some 10\<rparr>)
   \<and> getTransactions sampleStore None (noFilters\<lparr>f_page := Some 0\<rparr>) =
     getTransactions sampleStore None (noFilters\<lparr>f_page := Some 1\<rparr>)
   \<and> (0 :: int) < 2
   \<and> fst (getTransactions sampleStore None (noFilters\<lparr>f_page := Some 2, f_limit := Some 2\<rparr>)) = [tx1]"
proof -
  have "take (nat 2) (drop (nat ((2 - 1) * 2))
          (applySorting (f_sortBy noFilters)
            (filter (matchesFilters None noFilters) (map_values sampleStore)))) = [tx1]"
    by code_simp
  then show ?thesis
    using getTransactions_zero_is_default [of sampleStore None noFilters 2 2] by simp
qed

text \<open>
  C9 (as amended). A non-empty \<open>sortBy\<close> whose field component is neither \<open>price\<close> nor
  \<open>date\<close> leaves the filtered transactions unsorted, in the store's insertion order
  (then paginated). An absent \<open>sortBy\<close> sorts them by \<open>dateTime\<close> descending, and so
  does the empty string, which is falsy: the sorted list is a permutation of the
  filtered one, and it is in descending \<open>dateTime\<close> order when every \<open>dateTime\<close> is valid.
\<close>

theorem unrecognised_sortBy_keeps_insertion_order:
  "(s \<noteq> [] \<and> fieldComponent s \<noteq> ''price'' \<and> fieldComponent s \<noteq> ''date'' \<longrightarrow>
      fst (getTransactions st uid (f\<lparr>f_sortBy := Some s\<rparr>)) =
        paginate f (filter (matchesFilters uid f) (map_values st)))
   \<and> fst (getTransactions st uid (f\<lparr>f_sortBy := None\<rparr>)) =
        paginate f (sortBy (cmpDate True) (filter (matchesFilters uid f) (map_values st)))
   \<and> fst (getTransactions st uid (f\<lparr>f_sortBy := Some []\<rparr>)) =
        fst (getTransactions st uid (f\<lparr>f_sortBy := None\<rparr>))
   \<and> mset (sortBy (cmpDate True) xs) = mset xs
   \<and> (list_all validDateTime xs \<longrightarrow> sorted_wrt laterOrEqual (sortBy (cmpDate True) xs))"
proof -
  have a: "applyFilters st uid (f\<lparr>f_sortBy := sb\<rparr>) = filter (matchesFilters uid f) (map_values st)" for sb
    by (simp add: applyFilters_matches [symmetric] applyFilters_def)
  have p: "paginate (f\<lparr>f_sortBy := sb\<rparr>) ys = paginate f ys" for sb ys
    by (simp add: paginate_def)
  have 1: "fst (getTransactions st uid (f\<lparr>f_sortBy := Some s\<rparr>)) =
        paginate f (filter (matchesFilters uid f) (map_values st))"
    if "s \<noteq> []" "fieldComponent s \<noteq> ''price''" "fieldComponent s \<noteq> ''date''"
    using that by (simp add: getTransactions_def Let_def a p applySorting_unrecognised)
  have 2: "fst (getTransactions st uid (f\<lparr>f_sortBy := None\<rparr>)) =
        paginate f (sortBy (cmpDate True) (filter (matchesFilters uid f) (map_values st)))"
    by (simp add: getTransactions_def Let_def a p applySorting_def)
  have 3: "fst (getTransactions st uid (f\<lparr>f_sortBy := Some []\<rparr>)) =
        fst (getTransactions st uid (f\<lparr>f_sortBy := None\<rparr>))"
    by (simp add: getTransactions_def Let_def a p applySorting_def)
  show ?thesis
    using 1 2 3 by (simp add: mset_sortBy sortBy_date_desc)
qed

theorem unrecognised_sortBy_keeps_insertion_order_witness:
  "''foo:asc'' \<noteq> [] \<and> fieldComponent ''foo:asc'' \<noteq> ''price'' \<and> fieldComponent ''foo:asc'' \<noteq> ''date''
   \<and> fst (getTransactions sampleStore None (noFilters\<lparr>f_sortBy := Some ''foo:asc''\<rparr>)) = [tx1, tx2, tx3]
   \<and> fst (getTransactions sampleStore None (noFilters\<lparr>f_sortBy := None\<rparr>)) = [tx3, tx2, tx1]
   \<and> list_all validDateTime [tx1, tx2, tx3]
   \<and> sorted_wrt laterOrEqual (sortBy (cmpDate True) [tx1, tx2, tx3])"
proof -
  have f: "fieldComponent ''foo:asc'' = ''foo''"
    by (simp add: fieldComponent_def)
  have v: "list_all validDateTime [tx1, tx2, tx3]"
    by (simp add: validDateTime_def tx1_def tx2_def tx3_def)
  have m: "filter (matchesFilters None noFilters) (map_values sampleStore) = [tx1, tx2, tx3]"
    by (simp add: matchesFilters_def noFilters_def map_values_def sampleStore_def)
  have s: "sortBy (cmpDate True) [tx1, tx2, tx3] = [tx3, tx2, tx1]"
    by (simp add: sortBy_def cmpDate_def tx1_def tx2_def tx3_def)
  have p: "paginate noFilters ys = ys" if "length ys = 3" for ys :: "Transaction list"
    using that by (simp add: paginate_def noFilters_def orDefault_def slice_def Let_def)
  show ?thesis
    using unrecognised_sortBy_keeps_insertion_order [of "''foo:asc''" sampleStore None noFilters "[tx1, tx2, tx3]"] f v
    by (simp add: m s p)
qed

text \<open>
  The empty \<open>sortBy\<close> string has the field component \<open>''\<close>, neither \<open>price\<close> nor
  \<open>date\<close>, and still gets the default order, not the insertion order.
\<close>

theorem empty_sortBy_is_sorted_counterexample:
  "fieldComponent '''' \<noteq> ''price'' \<and> fieldComponent '''' \<noteq> ''date''
   \<and> fst (getTransactions sampleStore None (noFilters\<lparr>f_sortBy := Some ''''\<rparr>)) = [tx3, tx2, tx1]
   \<and> paginate noFilters (filter (matchesFilters None noFilters) (map_values sampleStore)) = [tx1, tx2, tx3]
   \<and> [tx3, tx2, tx1] \<noteq> [tx1, tx2, tx3]"
proof -
  have m: "filter (matchesFilters None noFilters) (map_values sampleStore) = [tx1, tx2, tx3]"
    by (simp add: matchesFilters_def noFilters_def map_values_def sampleStore_def)
  have a: "applyFilters sampleStore None (noFilters\<lparr>f_sortBy := Some []\<rparr>) = [tx1, tx2, tx3]"
    by (simp add: applyFilters_matches matchesFilters_def noFilters_def map_values_def sampleStore_def)
  have s: "sortBy (cmpDate True) [tx1, tx2, tx3] = [tx3, tx2, tx1]"
    by (simp add: sortBy_def cmpDate_def tx1_def tx2_def tx3_def)
  have p: "paginate (noFilters\<lparr>f_sortBy := sb\<rparr>) ys = ys" "paginate noFilters ys = ys"
    if "length ys = 3" for ys :: "Transaction list" and sb
    using that by (simp_all add: paginate_def noFilters_def orDefault_def slice_def Let_def)
  have g: "fst (getTransactions sampleStore None (noFilters\<lparr>f_sortBy := Some ''''\<rparr>)) = [tx3, tx2, tx1]"
    by (simp add: getTransactions_def Let_def a applySorting_def s p)
  have ne: "[tx3, tx2, tx1] \<noteq> [tx1, tx2, tx3]"
    by (simp add: tx1_def tx3_def)
  show ?thesis
    using g ne by (simp add: m p fieldComponent_def)
qed

lemma ceiling_less_offset:
  fixes n :: nat and l p :: int
  assumes "0 < l" "\<lceil>(of_nat n :: rat) / of_int l\<rceil> < p"
  shows "n \<le> nat ((p - 1) * l)"
proof -
  have "(of_nat n :: rat) / of_int l \<le> of_int (p - 1)"
    using assms(2) by (simp add: ceiling_less_iff)
  then have "(of_nat n :: rat) \<le> of_int (p - 1) * of_int l"
    using assms(1) by (simp add: pos_divide_le_eq)
  then have "(of_int (int n) :: rat) \<le> of_int ((p - 1) * l)"
    by simp
  then have "int n \<le> (p - 1) * l"
    by (simp only: of_int_le_iff)
  then show ?thesis by simp
qed

text \<open>
  C5. For a positive \<open>limit\<close> and a \<open>page\<close> from 1 on, the list response has
  \<open>total\<close> = the number of transactions matching the filters, \<open>pages = ceil(total / limit)\<close>,
  its transactions are the \<open>limit\<close> elements from offset \<open>(page - 1) * limit\<close> of the
  sorted matches, and they are the empty list (no error) for a page beyond \<open>pages\<close>.
\<close>

theorem listTransactions_pages:
  assumes "queryInt (q_limit q) 10 = Some l" and "0 < l"
    and "queryInt (q_page q) 1 = Some p" and "1 \<le> p"
  shows "let r = listTransactions st q;
             matching = filter (matchesFilters None (routeFilters q)) (map_values st)
         in r_total r = length matching
            \<and> r_pages r = Some \<lceil>(of_nat (r_total r) :: rat) / of_int l\<rceil>
            \<and> r_transactions r =
                take (nat l) (drop (nat ((p - 1) * l)) (applySorting (q_sortBy q) matching))
            \<and> (\<lceil>(of_nat (r_total r) :: rat) / of_int l\<rceil> < p \<longrightarrow> r_transactions r = [])"
proof -
  define matching where "matching = filter (matchesFilters None (routeFilters q)) (map_values st)"
  define sorted' where "sorted' = applySorting (q_sortBy q) matching"
  have fl: "f_limit (routeFilters q) = Some l" and fp: "f_page (routeFilters q) = Some p"
    and fs: "f_sortBy (routeFilters q) = q_sortBy q"
    using assms by (simp_all add: routeFilters_def)
  have len: "length sorted' = length matching"
  proof -
    have "mset (applySorting sb ys) = mset ys" for sb and ys :: "Transaction list"
      by (auto simp: applySorting_def Let_def mset_sortBy split: option.splits)
    then show ?thesis
      unfolding sorted'_def by (metis size_mset)
  qed
  have pg: "paginate (routeFilters q) sorted' = take (nat l) (drop (nat ((p - 1) * l)) sorted')"
    using assms(2,4) by (simp add: paginate_def fl fp orDefault_def Let_def slice_take_drop)
  have g: "getTransactions st None (routeFilters q) =
             (take (nat l) (drop (nat ((p - 1) * l)) sorted'), length matching)"
    by (simp add: getTransactions_def Let_def applyFilters_matches fs pg
          matching_def [symmetric] sorted'_def [symmetric])
  have tot: "r_total (listTransactions st q) = length matching"
    and tr: "r_transactions (listTransactions st q) = take (nat l) (drop (nat ((p - 1) * l)) sorted')"
    and pgs: "r_pages (listTransactions st q) = Some \<lceil>(of_nat (length matching) :: rat) / of_int l\<rceil>"
    using assms(2) by (simp_all add: listTransactions_def Let_def g fl ceilDiv_def)
  have empty: "take (nat l) (drop (nat ((p - 1) * l)) sorted') = []"
    if "\<lceil>(of_nat (length matching) :: rat) / of_int l\<rceil> < p"
    using ceiling_less_offset [OF assms(2) that] len by simp
  show ?thesis
    using tot tr pgs empty
    by (simp add: Let_def matching_def [symmetric] sorted'_def [symmetric])
qed

theorem listTransactions_pages_witness:
  "queryInt (q_limit pageQuery) 10 = Some 2 \<and> (0 :: int) < 2
   \<and> queryInt (q_page pageQuery) 1 = Some 3 \<and> (1 :: int) \<le> 3
   \<and> r_total (listTransactions sampleStore pageQuery) = 3
   \<and> r_pages (listTransactions sampleStore pageQuery) = Some 2
   \<and> (2 :: int) < 3
   \<and> r_transactions (listTransactions sampleStore pageQuery) = []"
proof -
  have l: "queryInt (q_limit pageQuery) 10 = Some 2" and p: "queryInt (q_page pageQuery) 1 = Some 3"
    by code_simp+
  have l0: "(0 :: int) < 2" and p1: "(1 :: int) \<le> 3"
    by simp_all
  have m: "length (filter (matchesFilters None (routeFilters pageQuery)) (map_values sampleStore)) = 3"
    by code_simp
  have c: "\<lceil>(3 :: rat) / 2\<rceil> = 2"
    by (simp add: ceiling_eq_iff)
  note th = listTransactions_pages [OF l l0 p p1, of sampleStore, unfolded Let_def]
  from th m have tot: "r_total (listTransactions sampleStore pageQuery) = 3"
    by simp
  from th have "r_pages (listTransactions sampleStore pageQuery) =
      Some \<lceil>(of_nat (r_total (listTransactions sampleStore pageQuery)) :: rat) / of_int 2\<rceil>"
    by blast
  with tot c have pg: "r_pages (listTransactions sampleStore pageQuery) = Some 2"
    by simp
  from th have "\<lceil>(of_nat (r_total (listTransactions sampleStore pageQuery)) :: rat) / of_int 2\<rceil> < 3
      \<longrightarrow> r_transactions (listTransactions sampleStore pageQuery) = []"
    by blast
  with tot c have e: "r_transactions (listTransactions sampleStore pageQuery) = []"
    by simp
  show ?thesis
    using l p tot pg e by simp
qed

text \<open>
  C1 (the code at the failing input). \<open>filteredTotal\<close> is the rounded sum of \<open>price\<close>
  over the transactions of the returned page. With \<open>?limit=2\<close> on the three sample
  transactions the page holds two of the three matches: \<open>filteredTotal\<close> is 25, and the
  rounded sum over all the matches is 35.
\<close>

theorem filteredTotal_sums_the_page:
  "r_filteredTotal (listTransactions st q) =
     toFixed2 (sum_list (map price (r_transactions (listTransactions st q))))
   \<and> r_transactions (listTransactions sampleStore limitQuery) = [tx3, tx2]
   \<and> r_total (listTransactions sampleStore limitQuery) = 3
   \<and> r_filteredTotal (listTransactions sampleStore limitQuery) = 25
   \<and> toFixed2 (sum_list (map price (filter
        (matchesFilters None (routeFilters limitQuery))
        (map_values sampleStore)))) = 35"
proof -
  have 1: "r_filteredTotal (listTransactions st q) =
     toFixed2 (sum_list (map price (r_transactions (listTransactions st q))))"
    by (simp add: listTransactions_def Let_def reduceSum_sum_list)
  have 2: "r_transactions (listTransactions sampleStore limitQuery) = [tx3, tx2]"
    by code_simp
  have 3: "r_total (listTransactions sampleStore limitQuery) = 3"
    by code_simp
  have 4: "r_filteredTotal (listTransactions sampleStore limitQuery) = 25"
    by code_simp
  have 5: "toFixed2 (sum_list (map price (filter
        (matchesFilters None (routeFilters limitQuery))
        (map_values sampleStore)))) = 35"
    by code_simp
  show ?thesis
    using 1 2 3 4 5 by blast
qed

section \<open>Editing a transaction\<close>

lemma map_of_map_set: "map_of (map_set m k v) = (map_of m)(k \<mapsto> v)"
  by (induction m) (auto simp: fun_eq_iff)

lemma map_fst_map_set:
  "map_of m k = Some old \<Longrightarrow> map fst (map_set m k v) = map fst m"
  by (induction m) (auto split: if_splits)

lemma filter_others_map_set:
  "map_of m k = Some old \<Longrightarrow>
     filter (\<lambda>p. fst p \<noteq> k) (map_set m k v) = filter (\<lambda>p. fst p \<noteq> k) m"
  by (induction m) (auto split: if_splits)

lemma applyEdit_update:
  "t\<lparr> price := e_price d, items := e_items d, dateTime := newDate (e_dateTime d),
      dateOnly := newDate (e_dateOnly d), category := e_category d \<rparr> = applyEdit newDate t d"
  by (cases t) (simp add: applyEdit_def)

lemma updateTransaction_Inr:
  "updateTransaction newDate st i data = Inr (u, st') \<longleftrightarrow>
     (\<exists>old. map_of st i = Some old \<and> u = applyEdit newDate old data \<and> st' = map_set st i u)"
  by (cases "map_of st i") (auto simp: updateTransaction_def applyEdit_update Let_def)

lemma putTransaction_cases:
  assumes "putTransaction newDate st idParam body = (resp, st')"
  shows "(st' = st \<and> (\<forall>u. resp \<noteq> Ok200 u)) \<or>
         (\<exists>i data u. parseInt idParam = Some i
            \<and> editTransactionSchema_parse (requestObject i body) = Inr data
            \<and> resp = Ok200 u \<and> updateTransaction newDate st i data = Inr (u, st'))"
  using assms
  by (auto simp: putTransaction_def getTransaction_def updateTransaction_def Let_def
      split: option.splits sum.splits)

lemma requestObject_other: "k \<noteq> ''id'' \<Longrightarrow> requestObject i body k = map_of body k"
  by (simp add: requestObject_def split: option.splits)

lemma asStr_Some: "asStr v = Some s \<longleftrightarrow> v = Some (JStr s)"
  by (auto simp: asStr_def split: option.splits json.splits)

lemma asNum_Some: "asNum v = Some n \<longleftrightarrow> v = Some (JNum n)"
  by (auto simp: asNum_def split: option.splits json.splits)

lemma parse_Inr_fields:
  assumes "editTransactionSchema_parse obj = Inr data"
  shows "obj ''id'' = Some (JNum (e_id data)) \<and> obj ''price'' = Some (JNum (e_price data))
    \<and> obj ''items'' = Some (JStr (e_items data)) \<and> obj ''dateTime'' = Some (JStr (e_dateTime data))
    \<and> obj ''dateOnly'' = Some (JStr (e_dateOnly data)) \<and> obj ''category'' = Some (JStr (e_category data))
    \<and> editIssues obj = []"
  using assms
  by (auto simp: editTransactionSchema_parse_def asStr_Some asNum_Some split: option.splits if_splits)

lemma filter_editFields:
  "filter P editFields =
     (if P ''id'' then [''id''] else []) @ (if P ''price'' then [''price''] else []) @
     (if P ''items'' then [''items''] else []) @ (if P ''dateTime'' then [''dateTime''] else []) @
     (if P ''dateOnly'' then [''dateOnly''] else []) @ (if P ''category'' then [''category''] else [])"
  by (simp add: editFields_def)

lemma issue_id: "map fst (zNumber ''id'' (obj ''id'')) = (if \<not> fieldOk obj ''id'' then [''id''] else [])"
  by (auto simp: zNumber_def fieldOk_def asNum_def split: option.splits json.splits)

lemma issue_price:
  "map fst (zNumberPositive ''price'' (obj ''price'')) = (if \<not> fieldOk obj ''price'' then [''price''] else [])"
  by (auto simp: zNumberPositive_def fieldOk_def asNum_def split: option.splits json.splits)

lemma issue_items:
  "map fst (zStringMin1 ''items'' (obj ''items'')) = (if \<not> fieldOk obj ''items'' then [''items''] else [])"
  by (auto simp: zStringMin1_def fieldOk_def asStr_def Suc_le_eq split: option.splits json.splits)

lemma issue_dateTime:
  "map fst (zString ''dateTime'' (obj ''dateTime'')) = (if \<not> fieldOk obj ''dateTime'' then [''dateTime''] else [])"
  by (auto simp: zString_def fieldOk_def asStr_def split: option.splits json.splits)

lemma issue_dateOnly:
  "map fst (zString ''dateOnly'' (obj ''dateOnly'')) = (if \<not> fieldOk obj ''dateOnly'' then [''dateOnly''] else [])"
  by (auto simp: zString_def fieldOk_def asStr_def split: option.splits json.splits)

lemma issue_category:
  "map fst (zEnum categories ''category'' (obj ''category'')) =
     (if \<not> fieldOk obj ''category'' then [''category''] else [])"
  by (auto simp: zEnum_def fieldOk_def asStr_def split: option.splits json.splits)

lemma editIssues_fields: "map fst (editIssues obj) = filter (\<lambda>k. \<not> fieldOk obj k) editFields"
  unfolding filter_editFields editIssues_def map_append
  by (simp only: issue_id issue_price issue_items issue_dateTime issue_dateOnly issue_category)

lemma parse_Inl: "editIssues obj \<noteq> [] \<Longrightarrow> editTransactionSchema_parse obj = Inl (editIssues obj)"
  by (simp add: editTransactionSchema_parse_def split: option.splits)

lemma parse_Inr:
  assumes "editIssues obj = []"
  shows "\<exists>data. editTransactionSchema_parse obj = Inr data"
proof -
  from assms have "zNumber ''id'' (obj ''id'') = []" "zNumberPositive ''price'' (obj ''price'') = []"
    "zStringMin1 ''items'' (obj ''items'') = []" "zString ''dateTime'' (obj ''dateTime'') = []"
    "zString ''dateOnly'' (obj ''dateOnly'') = []" "zEnum categories ''category'' (obj ''category'') = []"
    by (simp_all add: editIssues_def)
  then have "asNum (obj ''id'') \<noteq> None" "asNum (obj ''price'') \<noteq> None" "asStr (obj ''items'') \<noteq> None"
    "asStr (obj ''dateTime'') \<noteq> None" "asStr (obj ''dateOnly'') \<noteq> None" "asStr (obj ''category'') \<noteq> None"
    by (auto simp: zNumber_def zNumberPositive_def zStringMin1_def zString_def zEnum_def
        split: option.splits)
  with assms show ?thesis
    by (auto simp: editTransactionSchema_parse_def)
qed

text \<open>
  C8. An edit stores, under the edited id, a record with the \<open>id\<close> and the \<open>userId\<close> of
  the record it replaces; only \<open>price\<close>, \<open>items\<close>, \<open>dateTime\<close>, \<open>dateOnly\<close> and
  \<open>category\<close> are set from the payload. The keys and their order stay as they were, and
  every entry under another id is unchanged. A request that does not end in such an edit
  leaves the whole store unchanged.
\<close>

theorem edit_frame:
  "(updateTransaction newDate st i data = Inr (u, st') \<longrightarrow>
      (\<exists>old. map_of st i = Some old
         \<and> id_tx u = id_tx old \<and> userId u = userId old
         \<and> map_of st' = (map_of st)(i \<mapsto> u)
         \<and> map fst st' = map fst st
         \<and> filter (\<lambda>p. fst p \<noteq> i) st' = filter (\<lambda>p. fst p \<noteq> i) st))
   \<and> (putTransaction newDate st idParam body = (resp, st') \<longrightarrow>
        st' = st \<or>
        (\<exists>j d v. parseInt idParam = Some j \<and> resp = Ok200 v
           \<and> updateTransaction newDate st j d = Inr (v, st')))"
proof -
  have 1: "\<exists>old. map_of st i = Some old
         \<and> id_tx u = id_tx old \<and> userId u = userId old
         \<and> map_of st' = (map_of st)(i \<mapsto> u)
         \<and> map fst st' = map fst st
         \<and> filter (\<lambda>p. fst p \<noteq> i) st' = filter (\<lambda>p. fst p \<noteq> i) st"
    if "updateTransaction newDate st i data = Inr (u, st')"
  proof -
    from that obtain old where o: "map_of st i = Some old" "u = applyEdit newDate old data"
        "st' = map_set st i u"
      by (auto simp: updateTransaction_Inr)
    show ?thesis
      using o by (simp add: applyEdit_def map_of_map_set map_fst_map_set filter_others_map_set)
  qed
  have 2: "st' = st \<or>
        (\<exists>j d v. parseInt idParam = Some j \<and> resp = Ok200 v
           \<and> updateTransaction newDate st j d = Inr (v, st'))"
    if "putTransaction newDate st idParam body = (resp, st')"
    using putTransaction_cases [OF that] by blast
  show ?thesis
    using 1 2 by blast
qed

theorem edit_frame_witness:
  "updateTransaction (Date_parse 0) sampleStore 2 goodEdit
     = Inr (editedTx2, [(1, tx1), (2, editedTx2), (3, tx3)])
   \<and> map_of sampleStore 2 = Some tx2
   \<and> id_tx editedTx2 = id_tx tx2 \<and> userId editedTx2 = userId tx2
   \<and> filter (\<lambda>p. fst p \<noteq> 2) [(1, tx1), (2, editedTx2), (3, tx3)] = filter (\<lambda>p. fst p \<noteq> 2) sampleStore
   \<and> putTransaction (Date_parse 0) sampleStore ''2'' goodBody
       = (Ok200 editedTx2, [(1, tx1), (2, editedTx2), (3, tx3)])"
proof -
  have u: "updateTransaction (Date_parse 0) sampleStore 2 goodEdit
     = Inr (editedTx2, [(1, tx1), (2, editedTx2), (3, tx3)])"
    by code_simp
  have p: "putTransaction (Date_parse 0) sampleStore ''2'' goodBody
       = (Ok200 editedTx2, [(1, tx1), (2, editedTx2), (3, tx3)])"
    by code_simp
  have m2: "map_of sampleStore 2 = Some tx2"
    by (simp add: sampleStore_def)
  from edit_frame [of "Date_parse 0" sampleStore 2 goodEdit editedTx2 "[(1, tx1), (2, editedTx2), (3, tx3)]"
      "''2''" goodBody "Ok200 editedTx2"] u m2
  have "id_tx editedTx2 = id_tx tx2 \<and> userId editedTx2 = userId tx2
    \<and> filter (\<lambda>p. fst p \<noteq> 2) [(1, tx1), (2, editedTx2), (3, tx3)] = filter (\<lambda>p. fst p \<noteq> 2) sampleStore"
    by auto
  with u p m2 show ?thesis by simp
qed

text \<open>
  C3 (as amended). A successful edit stores \<open>new Date(dateTime)\<close> and
  \<open>new Date(dateOnly)\<close> of the payload's two strings, each on its own: \<open>dateOnly\<close> is
  neither recomputed from \<open>dateTime\<close> nor checked against it. The stored record is
  derived-consistent exactly when the two strings parse to a consistent pair.
\<close>

theorem edit_stores_both_dates_as_given:
  assumes "putTransaction newDate st idParam body = (Ok200 u, st')"
  shows "\<exists>i dt d. parseInt idParam = Some i
           \<and> map_of body ''dateTime'' = Some (JStr dt) \<and> map_of body ''dateOnly'' = Some (JStr d)
           \<and> map_of st' i = Some u
           \<and> dateTime u = newDate dt \<and> dateOnly u = newDate d
           \<and> (derivedConsistent tz u \<longleftrightarrow>
                (\<exists>a. newDate dt = Some a \<and> newDate d = Some (calendarDateOf tz a)))"
proof -
  from putTransaction_cases [OF assms] obtain i data
    where i: "parseInt idParam = Some i"
      and p: "editTransactionSchema_parse (requestObject i body) = Inr data"
      and up: "updateTransaction newDate st i data = Inr (u, st')"
    by auto
  from up obtain old where o: "map_of st i = Some old" "u = applyEdit newDate old data"
      "st' = map_set st i u"
    by (auto simp: updateTransaction_Inr)
  have dt: "map_of body ''dateTime'' = Some (JStr (e_dateTime data))"
    and d: "map_of body ''dateOnly'' = Some (JStr (e_dateOnly data))"
    using parse_Inr_fields [OF p] by (simp_all add: requestObject_other)
  have s: "map_of st' i = Some u"
    using o by (simp add: map_of_map_set)
  have t: "dateTime u = newDate (e_dateTime data)" "dateOnly u = newDate (e_dateOnly data)"
    using o by (simp_all add: applyEdit_def)
  have c: "derivedConsistent tz u \<longleftrightarrow>
      (\<exists>a. newDate (e_dateTime data) = Some a \<and> newDate (e_dateOnly data) = Some (calendarDateOf tz a))"
    by (auto simp: derivedConsistent_def t split: option.splits)
  show ?thesis
    using i dt d s t c by blast
qed

theorem edit_stores_both_dates_as_given_witness:
  "putTransaction (Date_parse 0) sampleStore ''2'' goodBody
     = (Ok200 editedTx2, [(1, tx1), (2, editedTx2), (3, tx3)])
   \<and> dateTime editedTx2 = Date_parse 0 ''2024-11-05T10:30''
   \<and> dateOnly editedTx2 = Date_parse 0 ''2024-11-05''
   \<and> derivedConsistent 0 editedTx2"
proof -
  have p: "putTransaction (Date_parse 0) sampleStore ''2'' goodBody
     = (Ok200 editedTx2, [(1, tx1), (2, editedTx2), (3, tx3)])"
    by code_simp
  have b: "map_of goodBody ''dateTime'' = Some (JStr ''2024-11-05T10:30'')"
      "map_of goodBody ''dateOnly'' = Some (JStr ''2024-11-05'')"
    by (simp_all add: goodBody_def)
  have c: "derivedConsistent 0 editedTx2"
    by code_simp
  from edit_stores_both_dates_as_given [OF p, of 0] b have "dateTime editedTx2 = Date_parse 0 ''2024-11-05T10:30''
      \<and> dateOnly editedTx2 = Date_parse 0 ''2024-11-05''"
    by auto
  with p c show ?thesis by simp
qed

text \<open>
  An edit with \<open>dateTime = 2024-11-05T10:30\<close> and \<open>dateOnly = 2024-01-01\<close> succeeds and
  stores a record whose \<open>dateOnly\<close> is not the calendar date of its \<open>dateTime\<close>.
\<close>

theorem edit_accepts_diverging_dates_counterexample:
  "putTransaction (Date_parse 0) sampleStore ''2'' divergingBody
     = (Ok200 divergedTx2, [(1, tx1), (2, divergedTx2), (3, tx3)])
   \<and> dateTime divergedTx2 = Some 1730802600000
   \<and> calendarDateOf 0 1730802600000 = 1730764800000
   \<and> dateOnly divergedTx2 = Some 1704067200000
   \<and> \<not> derivedConsistent 0 divergedTx2"
proof -
  have 1: "putTransaction (Date_parse 0) sampleStore ''2'' divergingBody
     = (Ok200 divergedTx2, [(1, tx1), (2, divergedTx2), (3, tx3)])"
    by code_simp
  have 2: "calendarDateOf 0 1730802600000 = 1730764800000"
    by code_simp
  have 3: "\<not> derivedConsistent 0 divergedTx2"
    by code_simp
  show ?thesis
    using 1 2 3 by (simp add: divergedTx2_def)
qed

text \<open>
  C4 (as amended). An edit request with a numeric id is validated before any mutation:
  \<open>price\<close> a positive number, \<open>items\<close> a non-empty string, \<open>category\<close> one of the twelve
  labels, \<open>dateTime\<close> and \<open>dateOnly\<close> strings of any content. When a field fails, the
  store is unchanged and the response is the validation error whose issues name exactly
  the failing fields, in schema order. When none fails and the id is in the store, the
  record is replaced by the old one with the payload's five fields and that record is
  returned; when the id is not in the store the response is not-found and the store is
  unchanged.
\<close>

theorem edit_validation:
  assumes "parseInt idParam = Some i"
  shows "let obj = requestObject i body;
             failing = filter (\<lambda>k. \<not> fieldOk obj k) editFields
         in (failing \<noteq> [] \<longrightarrow>
               (\<exists>issues. putTransaction newDate st idParam body = (Validation400 issues, st)
                  \<and> map fst issues = failing))
          \<and> (failing = [] \<and> map_of st i = None \<longrightarrow>
               putTransaction newDate st idParam body = (NotFound404, st))
          \<and> (failing = [] \<longrightarrow> (\<forall>old. map_of st i = Some old \<longrightarrow>
               (\<exists>data. obj ''price'' = Some (JNum (e_price data))
                  \<and> obj ''items'' = Some (JStr (e_items data))
                  \<and> obj ''dateTime'' = Some (JStr (e_dateTime data))
                  \<and> obj ''dateOnly'' = Some (JStr (e_dateOnly data))
                  \<and> obj ''category'' = Some (JStr (e_category data))
                  \<and> putTransaction newDate st idParam body =
                      (Ok200 (applyEdit newDate old data), map_set st i (applyEdit newDate old data)))))"
proof -
  define obj where "obj = requestObject i body"
  define failing where "failing = filter (\<lambda>k. \<not> fieldOk obj k) editFields"
  have f: "map fst (editIssues obj) = failing"
    by (simp add: failing_def editIssues_fields)
  have 1: "\<exists>issues. putTransaction newDate st idParam body = (Validation400 issues, st)
                  \<and> map fst issues = failing" if "failing \<noteq> []"
  proof -
    from that f have "editIssues obj \<noteq> []" by auto
    then have "editTransactionSchema_parse obj = Inl (editIssues obj)" by (rule parse_Inl)
    then have "putTransaction newDate st idParam body = (Validation400 (editIssues obj), st)"
      by (simp add: putTransaction_def assms obj_def)
    with f show ?thesis by blast
  qed
  have ok: "\<exists>data. editTransactionSchema_parse obj = Inr data" if "failing = []"
    using that f by (intro parse_Inr) simp
  have 2: "putTransaction newDate st idParam body = (NotFound404, st)"
    if "failing = []" "map_of st i = None"
    using ok [OF that(1)] that(2)
    by (auto simp: putTransaction_def assms obj_def getTransaction_def)
  have 3: "\<exists>data. obj ''price'' = Some (JNum (e_price data))
                  \<and> obj ''items'' = Some (JStr (e_items data))
                  \<and> obj ''dateTime'' = Some (JStr (e_dateTime data))
                  \<and> obj ''dateOnly'' = Some (JStr (e_dateOnly data))
                  \<and> obj ''category'' = Some (JStr (e_category data))
                  \<and> putTransaction newDate st idParam body =
                      (Ok200 (applyEdit newDate old data), map_set st i (applyEdit newDate old data))"
    if "failing = []" "map_of st i = Some old" for old
  proof -
    from ok [OF that(1)] obtain data where d: "editTransactionSchema_parse obj = Inr data" ..
    have "putTransaction newDate st idParam body =
        (Ok200 (applyEdit newDate old data), map_set st i (applyEdit newDate old data))"
      using d that(2)
      by (simp add: putTransaction_def assms obj_def [symmetric] getTransaction_def
            updateTransaction_def applyEdit_update Let_def)
    with parse_Inr_fields [OF d] show ?thesis by blast
  qed
  show ?thesis
    unfolding Let_def obj_def [symmetric] failing_def [symmetric]
    using 1 2 3 by blast
qed

theorem edit_validation_witness:
  "parseInt ''2'' = Some 2
   \<and> filter (\<lambda>k. \<not> fieldOk (requestObject 2 invalidBody) k) editFields = [''price'', ''items'']
   \<and> putTransaction (Date_parse 0) sampleStore ''2'' invalidBody
       = (Validation400 [(''price'', too_small), (''items'', too_small)], sampleStore)
   \<and> filter (\<lambda>k. \<not> fieldOk (requestObject 2 goodBody) k) editFields = []
   \<and> map_of sampleStore 2 = Some tx2
   \<and> putTransaction (Date_parse 0) sampleStore ''2'' goodBody
       = (Ok200 editedTx2, [(1, tx1), (2, editedTx2), (3, tx3)])
   \<and> parseInt ''99'' = Some 99
   \<and> filter (\<lambda>k. \<not> fieldOk (requestObject 99 goodBody) k) editFields = []
   \<and> map_of sampleStore 99 = None
   \<and> putTransaction (Date_parse 0) sampleStore ''99'' goodBody = (NotFound404, sampleStore)"
proof -
  have i2: "parseInt ''2'' = Some 2" and i99: "parseInt ''99'' = Some 99"
    by code_simp+
  have bad: "filter (\<lambda>k. \<not> fieldOk (requestObject 2 invalidBody) k) editFields = [''price'', ''items'']"
    by code_simp
  have good: "filter (\<lambda>k. \<not> fieldOk (requestObject 2 goodBody) k) editFields = []"
    by code_simp
  have good99: "filter (\<lambda>k. \<not> fieldOk (requestObject 99 goodBody) k) editFields = []"
    by code_simp
  have m2: "map_of sampleStore 2 = Some tx2" and m99: "map_of sampleStore 99 = None"
    by (simp_all add: sampleStore_def)
  have pbad: "putTransaction (Date_parse 0) sampleStore ''2'' invalidBody
       = (Validation400 [(''price'', too_small), (''items'', too_small)], sampleStore)"
    by code_simp
  have pgood: "putTransaction (Date_parse 0) sampleStore ''2'' goodBody
       = (Ok200 editedTx2, [(1, tx1), (2, editedTx2), (3, tx3)])"
    by code_simp
  have "putTransaction (Date_parse 0) sampleStore ''99'' goodBody = (NotFound404, sampleStore)"
    using edit_validation [OF i99, of goodBody "Date_parse 0" sampleStore, unfolded Let_def] good99 m99
    by simp
  then show ?thesis
    using i2 i99 bad good good99 m2 m99 pbad pgood by simp
qed

text \<open>
  A payload whose \<open>dateTime\<close> is \<open>not a date\<close> and whose \<open>dateOnly\<close> is the empty
  string passes validation: the record is replaced, with two Invalid Dates.
\<close>

theorem edit_accepts_unparseable_dates_counterexample:
  "Date_parse 0 ''not a date'' = None \<and> Date_parse 0 '''' = None
   \<and> putTransaction (Date_parse 0) sampleStore ''2'' unparseableBody
       = (Ok200 invalidDatesTx2, [(1, tx1), (2, invalidDatesTx2), (3, tx3)])
   \<and> [(1, tx1), (2, invalidDatesTx2), (3, tx3)] \<noteq> sampleStore"
proof -
  have 1: "Date_parse 0 ''not a date'' = None" "Date_parse 0 '''' = None"
    by code_simp+
  have 2: "putTransaction (Date_parse 0) sampleStore ''2'' unparseableBody
       = (Ok200 invalidDatesTx2, [(1, tx1), (2, invalidDatesTx2), (3, tx3)])"
    by code_simp
  have 3: "[(1, tx1), (2, invalidDatesTx2), (3, tx3)] \<noteq> sampleStore"
    by (simp add: sampleStore_def tx2_def invalidDatesTx2_def)
  show ?thesis
    using 1 2 3 by simp
qed

section \<open>Summaries by calendar day and month\<close>

lemma setHours0_localDay: "setHours0 tz t = localDay tz t * msPerDay - tz"
proof -
  have "t + tz = (t + tz) div msPerDay * msPerDay + (t + tz) mod msPerDay"
    by simp
  then show ?thesis
    unfolding setHours0_def localDay_def by linarith
qed


lemma onDate_dayOf:
  "onDate tz (subtractDays (setHours0 tz now) k) t \<longleftrightarrow> dayOf tz t = Some (localDay tz now - k)"
proof -
  have "(a * msPerDay - tz = b * msPerDay - tz - k * msPerDay) = (a = b - k)" for a b
  proof -
    have "(a * msPerDay - tz = b * msPerDay - tz - k * msPerDay) = (a * msPerDay = (b - k) * msPerDay)"
      by (simp add: algebra_simps)
    also have "\<dots> = (a = b - k)"
      by (simp only: mult_cancel_right) (simp add: msPerDay_def)
    finally show ?thesis .
  qed
  then show ?thesis
    by (cases "dateOnly t") (simp_all add: onDate_def dayOf_def subtractDays_def setHours0_localDay)
qed

lemma onDate_dayOf_today:
  "onDate tz (setHours0 tz now) t \<longleftrightarrow> dayOf tz t = Some (localDay tz now)"
  using onDate_dayOf [of tz now 0 t] by (simp add: subtractDays_def)

lemma onDate_fun:
  "onDate tz (subtractDays (setHours0 tz now) k) = (\<lambda>t. dayOf tz t = Some (localDay tz now - k))"
  by (rule ext) (rule onDate_dayOf)

lemma onDate_today_fun:
  "onDate tz (setHours0 tz now) = (\<lambda>t. dayOf tz t = Some (localDay tz now))"
  by (rule ext) (rule onDate_dayOf_today)

lemma dayAmount:
  "reduceSum price (filter (onDate tz (subtractDays (setHours0 tz now) k)) xs)
     = dayTotal tz xs (localDay tz now - k)"
  by (simp add: reduceSum_sum_list dayTotal_def onDate_fun)

lemma todayAmount:
  "reduceSum price (filter (onDate tz (setHours0 tz now)) xs) = dayTotal tz xs (localDay tz now)"
  by (simp add: reduceSum_sum_list dayTotal_def onDate_today_fun)

lemma dailyAmount_guard:
  "(if length ys > 0 then reduceSum price ys else 0) = reduceSum price ys"
  by (cases ys) (simp_all add: reduceSum_def)

lemma week_days: "map (\<lambda>i. int i + 1) [0..<7] = [1..7]"
  by code_simp

lemma lastWeek_average:
  "reduceSum (\<lambda>a. a)
     (map (\<lambda>date. let dayTransactions = filter (onDate tz date) xs
                 in if length dayTransactions > 0 then reduceSum price dayTransactions else 0)
        (map (\<lambda>i. subtractDays (setHours0 tz now) (int i + 1)) [0..<7]))
     / of_nat (length (map (\<lambda>i. subtractDays (setHours0 tz now) (int i + 1)) [0..<7]))
   = weekAverage tz xs (localDay tz now)"
proof -
  have "map (\<lambda>date. let dayTransactions = filter (onDate tz date) xs
                 in if length dayTransactions > 0 then reduceSum price dayTransactions else 0)
        (map (\<lambda>i. subtractDays (setHours0 tz now) (int i + 1)) [0..<7])
      = map (\<lambda>k. dayTotal tz xs (localDay tz now - k)) (map (\<lambda>i. int i + 1) [0..<7])"
    by (simp only: Let_def dailyAmount_guard map_map o_def dayAmount)
  then show ?thesis
    by (simp only: week_days weekAverage_def reduceSum_sum_list list.map_ident length_map length_upt)
       simp
qed

text \<open>
  \<open>MemStorage.getSpendingSummary\<close> returns \<open>todayTotal\<close> = the sum of \<open>price\<close> over the
  transactions dated today, and \<open>todayTrend = ((todayTotal - avg) / avg) * -100\<close> when
  \<open>avg > 0\<close>, else 0, where \<open>avg\<close> is the sum of the daily totals of the 7 calendar days
  before today (today excluded) divided by 7. A day that spends less than a positive
  average has a positive trend.
\<close>

lemma todayTrend_against_week_average:
  "let xs = byUser uid (map_values st);
       today = localDay tz now;
       avg = weekAverage tz xs today;
       s = getSpendingSummary tz now st uid
   in todayTotal s = dayTotal tz xs today
      \<and> todayTrend s = (if avg > 0 then ((dayTotal tz xs today - avg) / avg) * (- 100) else 0)
      \<and> (avg > 0 \<and> dayTotal tz xs today < avg \<longrightarrow> todayTrend s > 0)"
proof -
  define xs where "xs = byUser uid (map_values st)"
  define avg where "avg = weekAverage tz xs (localDay tz now)"
  define tod where "tod = dayTotal tz xs (localDay tz now)"
  have t: "todayTotal (getSpendingSummary tz now st uid) = tod"
    by (simp add: getSpendingSummary_def Let_def todayAmount xs_def tod_def)
  have "todayTrend (getSpendingSummary tz now st uid) =
      (let a = reduceSum (\<lambda>a. a)
     (map (\<lambda>date. let dayTransactions = filter (onDate tz date) xs
                 in if length dayTransactions > 0 then reduceSum price dayTransactions else 0)
        (map (\<lambda>i. subtractDays (setHours0 tz now) (int i + 1)) [0..<7]))
     / of_nat (length (map (\<lambda>i. subtractDays (setHours0 tz now) (int i + 1)) [0..<7]))
       in if a > 0 then ((tod - a) / a) * (- 100) else 0)"
    unfolding getSpendingSummary_def xs_def tod_def todayAmount [symmetric]
    by (simp add: Let_def)
  then have r: "todayTrend (getSpendingSummary tz now st uid) =
      (if avg > 0 then ((tod - avg) / avg) * (- 100) else 0)"
    unfolding lastWeek_average avg_def by (simp add: Let_def)
  have pos: "((tod - avg) / avg) * (- 100) > 0" if "avg > 0" "tod < avg"
  proof -
    have "(tod - avg) / avg < 0"
      using that by (simp add: divide_neg_pos)
    moreover have "(- 100 :: rat) < 0"
      by simp
    ultimately show ?thesis
      by (rule mult_neg_neg)
  qed
  show ?thesis
    unfolding Let_def xs_def [symmetric] avg_def [symmetric] tod_def [symmetric]
    using t r pos by simp
qed

lemma todayTrend_against_week_average_sample:
  "weekAverage 0 (byUser None (map_values sampleStore)) (localDay 0 sampleNowEarlier) = 10 / 7
   \<and> dayTotal 0 (byUser None (map_values sampleStore)) (localDay 0 sampleNowEarlier) = 0
   \<and> (0 :: rat) < 10 / 7
   \<and> todayTrend (getSpendingSummary 0 sampleNowEarlier sampleStore None) = 100
   \<and> todayTrend (getSpendingSummary 0 sampleNow sampleStore None) = - 1650"
proof -
  have a: "weekAverage 0 (byUser None (map_values sampleStore)) (localDay 0 sampleNowEarlier) = 10 / 7"
    by code_simp
  have d: "dayTotal 0 (byUser None (map_values sampleStore)) (localDay 0 sampleNowEarlier) = 0"
    by code_simp
  have a2: "weekAverage 0 (byUser None (map_values sampleStore)) (localDay 0 sampleNow) = 10 / 7"
    by code_simp
  have d2: "dayTotal 0 (byUser None (map_values sampleStore)) (localDay 0 sampleNow) = 25"
    by code_simp
  have 1: "todayTrend (getSpendingSummary 0 sampleNowEarlier sampleStore None) = 100"
    using todayTrend_against_week_average [of None sampleStore 0 sampleNowEarlier] by (simp add: Let_def a d)
  have 2: "todayTrend (getSpendingSummary 0 sampleNow sampleStore None) = - 1650"
    using todayTrend_against_week_average [of None sampleStore 0 sampleNow] by (simp add: Let_def a2 d2)
  show ?thesis
    using a d 1 2 by simp
qed

text \<open>
  C2 (the two storages at the failing input). The store holds 70.00 dated yesterday and
  35.00 dated today. \<open>MemStorage\<close> divides the week's sum by 7: \<open>avg = 10\<close> and
  \<open>todayTrend = -250\<close>, the value the formula over the 7 preceding days gives.
  \<open>DbStorage\<close> averages over the dates that have a row: \<open>avg = 70\<close> and
  \<open>todayTrend = 50\<close>, or no summary at all where date-fns rejects the string date.
\<close>

theorem todayTrend_differs_between_storages:
  "weekAverage 0 (map_values twoDayStore) (localDay 0 sampleNow) = 10
   \<and> dayTotal 0 (map_values twoDayStore) (localDay 0 sampleNow) = 35
   \<and> todayTrend (getSpendingSummary 0 sampleNow twoDayStore None) = - 250
   \<and> db_avgDaily 0 sampleNow (map_values twoDayStore) = 70
   \<and> db_todayTrend True 0 sampleNow (map_values twoDayStore) = Inr 50
   \<and> db_todayTrend False 0 sampleNow (map_values twoDayStore) = Inl InvalidTimeValue"
  by code_simp

lemma keys_map_set: "fst ` set (map_set m k v) = insert k (fst ` set m)"
  by (induction m) auto

lemma distinct_map_set: "distinct (map fst m) \<Longrightarrow> distinct (map fst (map_set m k v))"
  by (induction m) (auto simp: keys_map_set)

lemma keys_categoryTotals:
  "fst ` set (foldl addToCategory m xs) = fst ` set m \<union> category ` set xs"
  by (induction xs arbitrary: m) (auto simp: addToCategory_def Let_def keys_map_set)

lemma distinct_categoryTotals:
  "distinct (map fst m) \<Longrightarrow> distinct (map fst (foldl addToCategory m xs))"
  by (induction xs arbitrary: m) (simp_all add: addToCategory_def Let_def distinct_map_set)

lemma soFar_addToCategory:
  "soFar (addToCategory m t) c = soFar m c + (if category t = c then price t else 0)"
  by (simp add: soFar_def addToCategory_def Let_def map_of_map_set)

lemma soFar_categoryTotals:
  "soFar (foldl addToCategory m xs) c =
     soFar m c + sum_list (map price (filter (\<lambda>t. category t = c) xs))"
  by (induction xs arbitrary: m) (simp_all add: soFar_addToCategory)

lemma categoryTotals_entry:
  assumes "(c, v) \<in> set (categoryTotals xs)"
  shows "c \<in> category ` set xs \<and> v = sum_list (map price (filter (\<lambda>t. category t = c) xs))"
proof -
  have d: "distinct (map fst (categoryTotals xs))"
    by (simp add: categoryTotals_def distinct_categoryTotals)
  with assms have "map_of (categoryTotals xs) c = Some v"
    by simp
  then have "soFar (categoryTotals xs) c = v"
    by (simp add: soFar_def)
  moreover have "soFar [] c = 0"
    by (simp add: soFar_def)
  then have "soFar (categoryTotals xs) c = sum_list (map price (filter (\<lambda>t. category t = c) xs))"
    by (simp only: categoryTotals_def soFar_categoryTotals)
  moreover have "c \<in> category ` set xs"
    using assms keys_categoryTotals [of "[]" xs]
    by (force simp: categoryTotals_def)
  ultimately show ?thesis by simp
qed

lemma sortBy_total_desc: "sortBy cmpTotalDesc ys = sort_key (\<lambda>e. - cs_total e) ys"
  by (rule sortBy_sort_key) (simp add: cmpTotalDesc_def)

lemma sorted_desc:
  "sorted (map (\<lambda>e. - cs_total e) ys) \<Longrightarrow> sorted_wrt (\<lambda>a b. cs_total b \<le> cs_total a) ys"
  by (induction ys) auto

lemma sum_list_pos:
  fixes xs :: "Transaction list"
  assumes "xs \<noteq> []" "\<forall>t\<in>set xs. 0 < price t"
  shows "0 < sum_list (map price xs)"
proof -
  obtain y ys where xs: "xs = y # ys"
    using assms(1) by (cases xs) auto
  have "0 \<le> sum_list (map price ys)"
    using assms(2) by (intro sum_list_nonneg) (auto simp: xs less_imp_le)
  moreover have "0 < price y"
    using assms(2) by (simp add: xs)
  ultimately show ?thesis
    by (simp add: xs add_pos_nonneg)
qed

lemma inMonth_datedInMonthOf:
  "inMonth tz (getMonth tz now) (getFullYear tz now) = datedInMonthOf tz now"
proof (rule ext)
  fix t
  show "inMonth tz (getMonth tz now) (getFullYear tz now) t = datedInMonthOf tz now t"
    by (cases "dateOnly t")
      (auto simp: inMonth_def datedInMonthOf_def calendarMonth_def getMonth_def getFullYear_def
            split: prod.splits)
qed

text \<open>
  C7. \<open>getCategorySummary\<close> returns exactly one entry for each category that has a
  transaction dated in the current calendar month (a valid \<open>dateOnly\<close> whose calendar year
  and month are those of the clock) and none for the others: transactions of another month,
  of the same month of another year, or with an invalid date count for nothing. An entry's
  total is the sum of \<open>price\<close> over that category's transactions of the month, its
  percentage is \<open>total / monthTotal * 100\<close> (0 under the guard \<open>monthTotal <= 0\<close>, which
  positive prices never reach), and the entries are in descending order of total.
\<close>

theorem category_summary_of_month:
  "let xs = filter (datedInMonthOf tz now) (byUser uid (map_values st));
       mt = sum_list (map price xs);
       res = getCategorySummary tz now st uid
   in distinct (map cs_category res)
      \<and> set (map cs_category res) = category ` set xs
      \<and> (\<forall>e\<in>set res.
            cs_total e = sum_list (map price (filter (\<lambda>t. category t = cs_category e) xs))
            \<and> cs_percentage e = (if 0 < mt then cs_total e / mt * 100 else 0))
      \<and> sorted_wrt (\<lambda>a b. cs_total b \<le> cs_total a) res
      \<and> ((\<forall>t\<in>set xs. 0 < price t) \<longrightarrow> (\<forall>e\<in>set res. cs_percentage e = cs_total e / mt * 100))"
proof -
  define xs where
    "xs = filter (datedInMonthOf tz now) (byUser uid (map_values st))"
  define mt where "mt = sum_list (map price xs)"
  define mk where "mk = (\<lambda>(c, total'). \<lparr> cs_category = c, cs_total = total',
      cs_percentage = (if mt > 0 then (total' / mt) * 100 else 0) \<rparr>)"
  define res where "res = getCategorySummary tz now st uid"
  have res: "res = sort_key (\<lambda>e. - cs_total e) (map mk (categoryTotals xs))"
    unfolding res_def mk_def mt_def xs_def getCategorySummary_def Let_def inMonth_datedInMonthOf
      reduceSum_sum_list
    by (simp add: sortBy_total_desc)
  have cat: "cs_category \<circ> mk = fst"
    by (auto simp: mk_def)
  have ms: "mset (map cs_category res) = mset (map fst (categoryTotals xs))"
    by (simp add: res multiset.map_comp cat)
  have d: "distinct (map cs_category res)"
    using ms distinct_categoryTotals [of "[]" xs]
    by (metis categoryTotals_def distinct.simps(1) list.simps(8) mset_eq_imp_distinct_iff)
  have s: "set (map cs_category res) = category ` set xs"
  proof -
    have "set (map cs_category res) = set (map fst (categoryTotals xs))"
      using ms by (rule mset_eq_setD)
    also have "\<dots> = category ` set xs"
      using keys_categoryTotals [of "[]" xs] by (simp add: categoryTotals_def)
    finally show ?thesis .
  qed
  have e: "cs_total e = sum_list (map price (filter (\<lambda>t. category t = cs_category e) xs))
            \<and> cs_percentage e = (if 0 < mt then cs_total e / mt * 100 else 0)"
    if "e \<in> set res" for e
  proof -
    from that obtain c v where cv: "(c, v) \<in> set (categoryTotals xs)" "e = mk (c, v)"
      by (auto simp: res)
    from categoryTotals_entry [OF cv(1)] cv(2) show ?thesis
      by (simp add: mk_def)
  qed
  have o: "sorted_wrt (\<lambda>a b. cs_total b \<le> cs_total a) res"
    unfolding res by (rule sorted_desc) simp
  have p: "cs_percentage e = cs_total e / mt * 100" if "\<forall>t\<in>set xs. 0 < price t" "e \<in> set res" for e
  proof -
    from that(2) s have "xs \<noteq> []"
      by (cases xs) auto
    with that(1) have "0 < mt"
      unfolding mt_def by (intro sum_list_pos) auto
    with e [OF that(2)] show ?thesis by simp
  qed
  show ?thesis
    unfolding Let_def xs_def [symmetric] mt_def [symmetric] res_def [symmetric]
    using d s e o p by blast
qed

text \<open>
  In the sample the store also holds a transaction of October 2024, one of November 2023, one
  of December 2024 and one with an invalid date; only the three of November 2024 are counted.
\<close>

theorem category_summary_of_month_witness:
  "byUser None (map_values yearStore) = [octoberTx, tx1, lastYearTx, tx2, decemberTx, tx3, undatedTx]
   \<and> filter (datedInMonthOf 0 sampleNow) (byUser None (map_values yearStore)) = [tx1, tx2, tx3]
   \<and> getCategorySummary 0 sampleNow yearStore None = [foodSummary, rentSummary]
   \<and> 0 < price tx1 \<and> 0 < price tx2 \<and> 0 < price tx3
   \<and> cs_total foodSummary = price tx1 + price tx2
   \<and> cs_percentage foodSummary = cs_total foodSummary / 35 * 100
   \<and> cs_percentage rentSummary = cs_total rentSummary / 35 * 100"
proof -
  have b: "byUser None (map_values yearStore)
      = [octoberTx, tx1, lastYearTx, tx2, decemberTx, tx3, undatedTx]"
    by code_simp
  have x: "filter (datedInMonthOf 0 sampleNow) (byUser None (map_values yearStore)) = [tx1, tx2, tx3]"
    by code_simp
  have g: "getCategorySummary 0 sampleNow yearStore None = [foodSummary, rentSummary]"
    by code_simp
  have pr: "0 < price tx1" "0 < price tx2" "0 < price tx3"
    by (simp_all add: tx1_def tx2_def tx3_def)
  have mt: "sum_list (map price [tx1, tx2, tx3]) = 35"
    by (simp add: tx1_def tx2_def tx3_def)
  have f: "filter (\<lambda>t. category t = cs_category foodSummary) [tx1, tx2, tx3] = [tx1, tx2]"
    by (simp add: foodSummary_def tx1_def tx2_def tx3_def)
  note th = category_summary_of_month [of 0 sampleNow None yearStore, unfolded Let_def x g mt]
  from th pr have "cs_percentage foodSummary = cs_total foodSummary / 35 * 100"
      "cs_percentage rentSummary = cs_total rentSummary / 35 * 100"
    by simp_all
  moreover from th f have "cs_total foodSummary = price tx1 + price tx2"
    by simp
  ultimately show ?thesis
    using b x g pr by simp
qed





lemma mapThrowing_map:
  "mapThrowing f (map h ys) = mapThrowing (f \<circ> h) ys"
  by (induction ys) (simp_all split: sum.splits)







end
